theory Spec2Isabelle
  imports Main "HOL-Library.AList" "HOL-Library.Multiset"
begin

section \<open>Python values and exceptions\<close>

text \<open>
  The server of \<^verbatim>\<open>server.py\<close> is an object bus over JSON-RPC: classes derived from
  \<^verbatim>\<open>ServiceInterface\<close> tag their members with the decorators \<^verbatim>\<open>method\<close>, \<^verbatim>\<open>signal\<close> and
  \<^verbatim>\<open>rpc_property\<close>, the class \<^verbatim>\<open>RPC\<close> keeps the registry of interfaces and the dispatch table,
  and every interface has a set of connected peers (its bus) to which signals are sent.

  Function objects. A function of the source is \<open>Def l n\<close>: the \<^verbatim>\<open>def\<close> at line \<open>l\<close> whose
  \<^verbatim>\<open>__name__\<close> is \<open>n\<close> (the line stands for the identity of the function object). The
  closures returned by the decorators are \<open>Wrapped_method fn fn_name\<close> and
  \<open>Wrapped_signal fn fn_name\<close>, holding the variables the closure captures.
\<close>

datatype pyfun =
    Def nat string
  | Wrapped_method pyfun string
  | Wrapped_signal pyfun string

text \<open>The classes \<^verbatim>\<open>_Method\<close> and \<^verbatim>\<open>_Signal\<close>: a function and a name.\<close>

datatype Method = Method (m_fn: pyfun) (m_name: string)

datatype Signal = Signal (s_fn: pyfun) (s_name: string)

text \<open>
  The class \<^verbatim>\<open>_Property\<close>, a subclass of Python's \<^verbatim>\<open>property\<close>: getter, optional setter
  and the attribute \<^verbatim>\<open>name\<close>.
\<close>

datatype Property = Property (fget: pyfun) (fset: "pyfun option") (p_name: string)

text \<open>
  Values: what JSON carries, a \<^verbatim>\<open>_Property\<close> object (the keys \<^verbatim>\<open>get_all_props\<close> uses), and
  \<open>PObject d\<close> for any other Python object (a bound method, a list of descriptors, a set
  of peers), of which only a description is kept.
\<close>

datatype pyval =
    PNone
  | PBool bool
  | PInt int
  | PStr string
  | PList "pyval list"
  | PDict "(string \<times> pyval) list"
  | PProperty Property
  | PObject string

text \<open>The exceptions the code can raise; \<open>Raised\<close> is any exception of a handler's body.\<close>

datatype error = KeyError | AttributeError | TypeError | Raised string

section \<open>The decorators\<close>

text \<open>\<^verbatim>\<open>fn.__name__\<close>; \<^verbatim>\<open>functools.wraps\<close> copies it to the wrapper.\<close>

fun fn_name :: "pyfun \<Rightarrow> string" where
  "fn_name (Def l n) = n"
| "fn_name (Wrapped_method fn n) = fn_name fn"
| "fn_name (Wrapped_signal fn n) = fn_name fn"

text \<open>
  \<^verbatim>\<open>name if name else fn.__name__\<close>: the empty string counts as no name. The decorator
  \<^verbatim>\<open>method\<close> is \<open>method'\<close> here.
\<close>

definition name_or :: "string option \<Rightarrow> pyfun \<Rightarrow> string" where
  "name_or nm fn = (case nm of None \<Rightarrow> fn_name fn | Some n \<Rightarrow> if n \<noteq> [] then n else fn_name fn)"

definition method' :: "string option \<Rightarrow> pyfun \<Rightarrow> pyfun" where
  "method' nm fn = Wrapped_method fn (name_or nm fn)"

definition signal :: "string option \<Rightarrow> pyfun \<Rightarrow> pyfun" where
  "signal nm fn = Wrapped_signal fn (name_or nm fn)"

definition rpc_property :: "string option \<Rightarrow> pyfun \<Rightarrow> Property" where
  "rpc_property nm fn = Property fn None (name_or nm fn)"

text \<open>\<^verbatim>\<open>_Property.setter\<close>: a copy of the property with the setter, and the same name.\<close>

definition setter :: "Property \<Rightarrow> pyfun \<Rightarrow> Property" where
  "setter p fn = Property (fget p) (Some fn) (p_name p)"

text \<open>
  The \<^verbatim>\<open>__dict__\<close> of a class member, as far as \<^verbatim>\<open>ServiceInterface.__init__\<close> reads it. A
  wrapper gets the dictionary of the function it wraps (\<^verbatim>\<open>functools.wraps\<close> updates
  \<^verbatim>\<open>__dict__\<close>) and then its own tag.
\<close>

record member_dict =
  RPC_METHOD :: "Method option"
  RPC_SIGNAL :: "Signal option"
  RPC_PROPERTY :: bool

fun dict_of :: "pyfun \<Rightarrow> member_dict" where
  "dict_of (Def l n) = \<lparr>RPC_METHOD = None, RPC_SIGNAL = None, RPC_PROPERTY = False\<rparr>"
| "dict_of (Wrapped_method fn n) = (dict_of fn)\<lparr>RPC_METHOD := Some (Method fn n)\<rparr>"
| "dict_of (Wrapped_signal fn n) = (dict_of fn)\<lparr>RPC_SIGNAL := Some (Signal fn n)\<rparr>"

text \<open>
  A member of a class: a function of the source; a \<^verbatim>\<open>_Property\<close>; one of the three
  attributes that every object of these classes has as a data descriptor of its own
  (\<^verbatim>\<open>__class__\<close>, \<^verbatim>\<open>__dict__\<close>, \<^verbatim>\<open>__weakref__\<close>); or \<open>Plain v\<close>, any other member (a method
  inherited from \<^verbatim>\<open>object\<close>, \<^verbatim>\<open>__doc__\<close>, \<^verbatim>\<open>__module__\<close>), for which \<^verbatim>\<open>getattr\<close> on an instance
  gives \<open>v\<close>. Only the first two kinds can carry a tag.
\<close>

datatype slot = Class_slot | Dict_slot | Weakref_slot

datatype member = Fn pyfun | Prop Property | Plain pyval | Getset slot

fun getattr_dict :: "member \<Rightarrow> member_dict" where
  "getattr_dict (Fn f) = dict_of f"
| "getattr_dict (Prop p) = \<lparr>RPC_METHOD = None, RPC_SIGNAL = None, RPC_PROPERTY = True\<rparr>"
| "getattr_dict (Plain v) = \<lparr>RPC_METHOD = None, RPC_SIGNAL = None, RPC_PROPERTY = False\<rparr>"
| "getattr_dict (Getset g) = \<lparr>RPC_METHOD = None, RPC_SIGNAL = None, RPC_PROPERTY = False\<rparr>"

section \<open>ServiceInterface\<close>

type_synonym peer = nat

text \<open>
  Python's \<^verbatim>\<open>set\<close> of peers is a list without duplicates; its order stands for the order
  in which Python iterates over the set, which the language leaves open.
\<close>

definition set_add :: "'a \<Rightarrow> 'a list \<Rightarrow> 'a list" where
  "set_add x xs = (if x \<in> set xs then xs else xs @ [x])"

definition set_remove :: "'a \<Rightarrow> 'a list \<Rightarrow> error + 'a list" where
  "set_remove x xs = (if x \<in> set xs then Inr (removeAll x xs) else Inl KeyError)"

text \<open>
  An instance of \<^verbatim>\<open>ServiceInterface\<close> (or of a subclass). \<open>cls\<close> is its class, as
  \<^verbatim>\<open>inspect.getmembers(type(self))\<close> lists it: pairs of attribute name and member, sorted by
  name. \<open>methods\<close>, \<open>properties\<close>, \<open>signals\<close> and \<open>bus\<close> are the private attributes
  \<^verbatim>\<open>__methods\<close>, \<^verbatim>\<open>__properties\<close>, \<^verbatim>\<open>__signals\<close> and \<^verbatim>\<open>__bus\<close>. \<open>attrs\<close> is the instance's
  \<^verbatim>\<open>__dict__\<close> as \<^verbatim>\<open>getattr\<close> and \<^verbatim>\<open>setattr\<close> see it; the attributes held in the typed fields
  appear there too, as objects of which only a description is kept.
\<close>

record ServiceInterface =
  name :: string
  methods :: "Method list"
  properties :: "Property list"
  properties_getters :: "pyfun set"
  signals :: "Signal list"
  bus :: "peer list"
  cls :: "(string \<times> member) list"
  attrs :: "string \<rightharpoonup> pyval"

text \<open>The body of the loop of \<^verbatim>\<open>__init__\<close>, for one member.\<close>

definition discover :: "ServiceInterface \<Rightarrow> string \<times> member \<Rightarrow> ServiceInterface" where
  "discover self nm =
     (let member_dict = getattr_dict (snd nm) in
      case RPC_METHOD member_dict of
        Some m \<Rightarrow> self\<lparr>methods := methods self @ [m]\<rparr>
      | None \<Rightarrow>
         (case RPC_SIGNAL member_dict of
            Some m \<Rightarrow> self\<lparr>signals := signals self @ [m]\<rparr>
          | None \<Rightarrow>
             if RPC_PROPERTY member_dict then
               (case snd nm of
                  Prop member \<Rightarrow>
                    if fget member \<in> properties_getters self then self
                    else self\<lparr>properties_getters := insert (fget member) (properties_getters self),
                              properties := properties self @ [member]\<rparr>
                | _ \<Rightarrow> self)
             else self))"

text \<open>
  \<^verbatim>\<open>ServiceInterface.__init__(self, name)\<close> for an object of the class \<open>members\<close>. The set
  \<^verbatim>\<open>__properties_getters\<close> is deleted at the end.
\<close>

definition ServiceInterface_init :: "string \<Rightarrow> (string \<times> member) list \<Rightarrow> ServiceInterface" where
  "ServiceInterface_init nm members =
     (foldl discover
        \<lparr>name = nm, methods = [], properties = [], properties_getters = {}, signals = [],
         bus = [], cls = members,
         attrs = [''name'' \<mapsto> PStr nm,
                  ''_ServiceInterface__methods'' \<mapsto> PObject ''list'',
                  ''_ServiceInterface__properties'' \<mapsto> PObject ''list'',
                  ''_ServiceInterface__signals'' \<mapsto> PObject ''list'',
                  ''_ServiceInterface__bus'' \<mapsto> PObject ''set'']\<rparr>
        members)\<lparr>properties_getters := {}\<rparr>"

definition get_methods :: "ServiceInterface \<Rightarrow> Method list" where
  "get_methods self = methods self"

definition get_properties :: "ServiceInterface \<Rightarrow> Property list" where
  "get_properties self = properties self"

definition ServiceInterface_add_bus :: "ServiceInterface \<Rightarrow> peer \<Rightarrow> ServiceInterface" where
  "ServiceInterface_add_bus self b = self\<lparr>bus := set_add b (bus self)\<rparr>"

definition ServiceInterface_remove_bus :: "ServiceInterface \<Rightarrow> peer \<Rightarrow> error + ServiceInterface" where
  "ServiceInterface_remove_bus self b =
     (case set_remove b (bus self) of
        Inl e \<Rightarrow> Inl e
      | Inr bs \<Rightarrow> Inr (self\<lparr>bus := bs\<rparr>))"

section \<open>The state of the server\<close>

text \<open>
  Objects are shared: the \<^verbatim>\<open>RPC\<close> object is an entry of its own registry, and the dispatch
  table binds each method to its interface object. So the instances live in a store
  \<open>heap\<close>, addressed by object identity. The other fields are the event loop's tasks
  created by \<^verbatim>\<open>_handle_signal\<close> and not yet done, and the attributes of the one \<^verbatim>\<open>RPC\<close>
  object \<open>rpc\<close>: \<^verbatim>\<open>interfaces\<close> (a dict, in insertion order), the \<^verbatim>\<open>method_map\<close> of
  \<^verbatim>\<open>dispatcher\<close>, and \<^verbatim>\<open>bus\<close>.

  A task is the coroutine \<^verbatim>\<open>bus.send(text)\<close> with its done callback
  \<^verbatim>\<open>partial(resolve_task, bus)\<close>, which closes over \<^verbatim>\<open>self\<close> (the owner).
\<close>

type_synonym oid = nat

record task =
  target :: peer
  payload :: string
  owner :: oid

record state =
  heap :: "oid \<Rightarrow> ServiceInterface"
  loop :: "task list"
  rpc :: oid
  interfaces :: "(string \<times> oid) list"
  dispatcher :: "string \<rightharpoonup> pyfun \<times> oid"
  rpc_bus :: "peer list"

text \<open>
  \<^verbatim>\<open>ServiceInterface._handle_signal(self, signal, result)\<close>: one task per peer of the bus,
  each sending the same text.
\<close>

definition signal_text :: string where
  \<open>signal_text = ''{"jsonrpc: "2.0", "method":"a.signal.bla", "params": ["hello"]}''\<close>

definition ServiceInterface_handle_signal :: "state \<Rightarrow> oid \<Rightarrow> Signal \<Rightarrow> pyval \<Rightarrow> state" where
  "ServiceInterface_handle_signal s self sig result =
     s\<lparr>loop := loop s @
          map (\<lambda>b. \<lparr>target = b, payload = signal_text, owner = self\<rparr>) (bus (heap s self))\<rparr>"

text \<open>
  The done callback \<^verbatim>\<open>resolve_task(bus, task)\<close>; \<open>exc\<close> says whether \<^verbatim>\<open>task.exception()\<close>
  is an exception.
\<close>

definition resolve_task :: "state \<Rightarrow> oid \<Rightarrow> peer \<Rightarrow> bool \<Rightarrow> (error + unit) \<times> state" where
  "resolve_task s self b exc =
     (if exc then
        (case set_remove b (bus (heap s self)) of
           Inl e \<Rightarrow> (Inl e, s)
         | Inr bs \<Rightarrow> (Inr (), s\<lparr>heap := (heap s)(self := (heap s self)\<lparr>bus := bs\<rparr>)\<rparr>))
      else (Inr (), s))"

text \<open>
  Calling a function object on \<^verbatim>\<open>self\<close> and arguments. \<open>body\<close> gives what the plain
  functions of the classes do; the wrapper of \<^verbatim>\<open>method\<close> calls its function, the wrapper of
  \<^verbatim>\<open>signal\<close> calls its function and then \<^verbatim>\<open>_handle_signal\<close> with the result.
\<close>

type_synonym code = "pyfun \<Rightarrow> oid \<Rightarrow> pyval list \<Rightarrow> state \<Rightarrow> (error + pyval) \<times> state"

fun call :: "code \<Rightarrow> pyfun \<Rightarrow> oid \<Rightarrow> pyval list \<Rightarrow> state \<Rightarrow> (error + pyval) \<times> state" where
  "call body (Def l n) self args s = body (Def l n) self args s"
| "call body (Wrapped_method fn n) self args s = call body fn self args s"
| "call body (Wrapped_signal fn n) self args s =
     (case call body fn self args s of
        (Inl e, s') \<Rightarrow> (Inl e, s')
      | (Inr result, s') \<Rightarrow>
          (Inr result, ServiceInterface_handle_signal s' self (Signal fn n) result))"

section \<open>Attribute access\<close>

text \<open>
  \<^verbatim>\<open>getattr(obj, name)\<close> on an instance: a name that is not a string is a \<^verbatim>\<open>TypeError\<close>; a
  data descriptor of the class comes first (a property calls its getter; \<^verbatim>\<open>__class__\<close> is
  the class, \<^verbatim>\<open>__dict__\<close> the instance's dictionary, \<^verbatim>\<open>__weakref__\<close> is \<^verbatim>\<open>None\<close>); then the
  instance's own attributes; then the other members of the class (a function gives a
  bound method); otherwise \<^verbatim>\<open>AttributeError\<close>.
\<close>

fun slot_value :: "slot \<Rightarrow> pyval" where
  "slot_value Class_slot = PObject ''class''"
| "slot_value Dict_slot = PObject ''dict''"
| "slot_value Weakref_slot = PNone"

fun getattr :: "code \<Rightarrow> state \<Rightarrow> oid \<Rightarrow> pyval \<Rightarrow> (error + pyval) \<times> state" where
  "getattr body s obj (PStr n) =
     (case map_of (cls (heap s obj)) n of
        Some (Prop p) \<Rightarrow> call body (fget p) obj [] s
      | Some (Getset g) \<Rightarrow> (Inr (slot_value g), s)
      | Some (Fn f) \<Rightarrow>
          (case attrs (heap s obj) n of
             Some v \<Rightarrow> (Inr v, s)
           | None \<Rightarrow> (Inr (PObject ''bound method''), s))
      | Some (Plain c) \<Rightarrow>
          (case attrs (heap s obj) n of
             Some v \<Rightarrow> (Inr v, s)
           | None \<Rightarrow> (Inr c, s))
      | None \<Rightarrow>
          (case attrs (heap s obj) n of
             Some v \<Rightarrow> (Inr v, s)
           | None \<Rightarrow> (Inl AttributeError, s)))"
| "getattr body s obj _ = (Inl TypeError, s)"

text \<open>
  The names that the functions of \<^verbatim>\<open>ServiceInterface\<close> and \<^verbatim>\<open>RPC\<close> read or call on an object:
  the attributes held in the typed fields, and the methods that are called through the
  instance (\<^verbatim>\<open>interface._add_bus(ws)\<close> and the like), which an attribute of the instance
  would shadow.
\<close>

definition framework_names :: "state \<Rightarrow> oid \<Rightarrow> string list" where
  "framework_names s obj =
     [''name'', ''_ServiceInterface__methods'', ''_ServiceInterface__properties'',
      ''_ServiceInterface__signals'', ''_ServiceInterface__bus'',
      ''_get_methods'', ''_get_properties'', ''_add_bus'', ''_remove_bus''] @
     (if obj = rpc s then [''dispatcher'', ''interfaces'', ''bus'', ''register_interface''] else [])"

text \<open>
  \<^verbatim>\<open>setattr(obj, name, value)\<close>. The result \<open>None\<close> says that the effect is outside this
  model, which keeps the attributes of \<open>framework_names\<close> in typed fields: storing a
  foreign value under one of them (or replacing \<^verbatim>\<open>__dict__\<close> as a whole) changes what the
  functions of the classes do afterwards in ways the typed fields cannot hold. Everywhere
  else the result is what Python does: a name that is not a string is a \<^verbatim>\<open>TypeError\<close>; a
  property calls its setter, and raises \<^verbatim>\<open>AttributeError\<close> when it has none; \<^verbatim>\<open>__class__\<close>
  takes only a class and \<^verbatim>\<open>__dict__\<close> only a dictionary (\<^verbatim>\<open>TypeError\<close>), \<^verbatim>\<open>__weakref__\<close> cannot
  be written (\<^verbatim>\<open>AttributeError\<close>); any other name is stored in the instance.
\<close>

fun set_slot :: "slot \<Rightarrow> pyval \<Rightarrow> state \<Rightarrow> ((error + unit) \<times> state) option" where
  "set_slot Class_slot (PObject d) s = None"
| "set_slot Class_slot v s = Some (Inl TypeError, s)"
| "set_slot Dict_slot (PDict kvs) s = None"
| "set_slot Dict_slot (PObject d) s = None"
| "set_slot Dict_slot v s = Some (Inl TypeError, s)"
| "set_slot Weakref_slot v s = Some (Inl AttributeError, s)"

fun setattr ::
  "code \<Rightarrow> state \<Rightarrow> oid \<Rightarrow> pyval \<Rightarrow> pyval \<Rightarrow> ((error + unit) \<times> state) option" where
  "setattr body s obj (PStr n) v =
     (case map_of (cls (heap s obj)) n of
        Some (Prop p) \<Rightarrow>
          (case fset p of
             None \<Rightarrow> Some (Inl AttributeError, s)
           | Some f \<Rightarrow>
               (case call body f obj [v] s of
                  (Inl e, s') \<Rightarrow> Some (Inl e, s')
                | (Inr r, s') \<Rightarrow> Some (Inr (), s')))
      | Some (Getset g) \<Rightarrow> set_slot g v s
      | _ \<Rightarrow>
          if n \<in> set (framework_names s obj) then None
          else Some (Inr (),
            s\<lparr>heap := (heap s)(obj := (heap s obj)\<lparr>attrs := (attrs (heap s obj))(n \<mapsto> v)\<rparr>)\<rparr>))"
| "setattr body s obj _ v = Some (Inl TypeError, s)"

text \<open>
  \<^verbatim>\<open>d[key]\<close> on a dict whose keys are strings: a list or a dict as key is unhashable, any
  other key that is not in the dict is a \<^verbatim>\<open>KeyError\<close>.
\<close>

fun getitem :: "(string \<times> 'v) list \<Rightarrow> pyval \<Rightarrow> error + 'v" where
  "getitem d (PStr k) = (case map_of d k of None \<Rightarrow> Inl KeyError | Some v \<Rightarrow> Inr v)"
| "getitem d (PList xs) = Inl TypeError"
| "getitem d (PDict kvs) = Inl TypeError"
| "getitem d _ = Inl KeyError"

section \<open>RPC\<close>

text \<open>\<^verbatim>\<open>RPC.register_interface(self, interface)\<close>; \<open>interface\<close> is the object's identity.\<close>

definition add_method :: "state \<Rightarrow> pyfun \<times> oid \<Rightarrow> string \<Rightarrow> state" where
  "add_method s bound_method method_name =
     s\<lparr>dispatcher := (dispatcher s)(method_name \<mapsto> bound_method)\<rparr>"

definition register_interface :: "state \<Rightarrow> oid \<Rightarrow> state" where
  "register_interface s interface =
     foldl (\<lambda>s' m. add_method s' (m_fn m, interface) (name (heap s interface) @ ''.'' @ m_name m))
       (s\<lparr>interfaces := AList.update (name (heap s interface)) interface (interfaces s)\<rparr>)
       (get_methods (heap s interface))"

definition get_prop :: "code \<Rightarrow> state \<Rightarrow> pyval \<Rightarrow> pyval \<Rightarrow> (error + pyval) \<times> state" where
  "get_prop body s interface_name property_name =
     (case getitem (interfaces s) interface_name of
        Inl e \<Rightarrow> (Inl e, s)
      | Inr interface \<Rightarrow> getattr body s interface property_name)"

definition set_prop ::
  "code \<Rightarrow> state \<Rightarrow> pyval \<Rightarrow> pyval \<Rightarrow> pyval \<Rightarrow> ((error + pyval) \<times> state) option" where
  "set_prop body s interface_name property_name v =
     (case getitem (interfaces s) interface_name of
        Inl e \<Rightarrow> Some (Inl e, s)
      | Inr interface \<Rightarrow>
          (case setattr body s interface property_name v of
             None \<Rightarrow> None
           | Some (Inl e, s') \<Rightarrow> Some (Inl e, s')
           | Some (Inr u, s') \<Rightarrow> Some (Inr PNone, s')))"

text \<open>
  The loop of \<^verbatim>\<open>get_all_props\<close>: the keys are the \<^verbatim>\<open>_Property\<close> objects of
  \<^verbatim>\<open>_get_properties()\<close>, and each is handed to \<^verbatim>\<open>getattr\<close> as the attribute name.
\<close>

fun all_props_loop ::
  "code \<Rightarrow> oid \<Rightarrow> Property list \<Rightarrow> (Property \<times> pyval) list \<Rightarrow> state \<Rightarrow>
     (error + (Property \<times> pyval) list) \<times> state" where
  "all_props_loop body interface [] all_props s = (Inr all_props, s)"
| "all_props_loop body interface (key # keys) all_props s =
     (case getattr body s interface (PProperty key) of
        (Inl e, s') \<Rightarrow> (Inl e, s')
      | (Inr v, s') \<Rightarrow> all_props_loop body interface keys (AList.update key v all_props) s')"

definition get_all_props ::
  "code \<Rightarrow> state \<Rightarrow> pyval \<Rightarrow> (error + (Property \<times> pyval) list) \<times> state" where
  "get_all_props body s interface_name =
     (case getitem (interfaces s) interface_name of
        Inl e \<Rightarrow> (Inl e, s)
      | Inr interface \<Rightarrow>
          all_props_loop body interface (get_properties (heap s interface)) [] s)"

definition introspect :: "state \<Rightarrow> pyval" where
  "introspect s =
     PDict [(''interfaces'',
       PDict (foldl (\<lambda>d ni. AList.update (fst ni)
                (PDict [(''methods'', PDict []), (''signals'', PDict []),
                        (''properties'', PDict [])]) d)
              [] (interfaces s)))]"

text \<open>
  \<^verbatim>\<open>RPC._add_bus(self, ws)\<close>. Both branches of the loop run
  \<^verbatim>\<open>ServiceInterface._add_bus\<close> on the interface (no other class overrides it).
\<close>

definition RPC_add_bus :: "state \<Rightarrow> peer \<Rightarrow> state" where
  "RPC_add_bus s ws =
     foldl (\<lambda>s' interface.
              if interface = rpc s'
              then s'\<lparr>heap := (heap s')(rpc s' := ServiceInterface_add_bus (heap s' (rpc s')) ws)\<rparr>
              else s'\<lparr>heap := (heap s')(interface := ServiceInterface_add_bus (heap s' interface) ws)\<rparr>)
       (s\<lparr>rpc_bus := set_add ws (rpc_bus s)\<rparr>)
       (map snd (interfaces s))"

text \<open>
  \<^verbatim>\<open>RPC._remove_bus(self, ws)\<close>. A \<^verbatim>\<open>KeyError\<close> of \<^verbatim>\<open>remove\<close> ends the call where it is
  raised, with the state as changed so far.
\<close>

fun remove_bus_loop :: "peer \<Rightarrow> oid list \<Rightarrow> state \<Rightarrow> (error + unit) \<times> state" where
  "remove_bus_loop ws [] s = (Inr (), s)"
| "remove_bus_loop ws (interface # rest) s =
     (if interface = rpc s
      then remove_bus_loop ws rest
             (s\<lparr>heap := (heap s)(rpc s := ServiceInterface_add_bus (heap s (rpc s)) ws)\<rparr>)
      else
        (case ServiceInterface_remove_bus (heap s interface) ws of
           Inl e \<Rightarrow> (Inl e, s)
         | Inr self' \<Rightarrow> remove_bus_loop ws rest (s\<lparr>heap := (heap s)(interface := self')\<rparr>)))"

definition RPC_remove_bus :: "state \<Rightarrow> peer \<Rightarrow> (error + unit) \<times> state" where
  "RPC_remove_bus s ws =
     (case set_remove ws (rpc_bus s) of
        Inl e \<Rightarrow> (Inl e, s)
      | Inr bs \<Rightarrow> remove_bus_loop ws (map snd (interfaces s)) (s\<lparr>rpc_bus := bs\<rparr>))"

section \<open>The classes of the program and its start\<close>

text \<open>
  The classes as \<^verbatim>\<open>inspect.getmembers\<close> lists them, sorted by name. First the members with
  special names that every class of the program has, as CPython 3.11 and 3.12 list them:
  those inherited from \<^verbatim>\<open>object\<close>, the class's own \<^verbatim>\<open>__init__\<close>, \<^verbatim>\<open>__doc__\<close> (the classes have
  no docstring) and \<^verbatim>\<open>__module__\<close> (the file is run as a script), and \<^verbatim>\<open>__dict__\<close> and
  \<^verbatim>\<open>__weakref__\<close> of \<^verbatim>\<open>ServiceInterface\<close>. Then the members that \<^verbatim>\<open>ServiceInterface\<close> defines
  (inherited, or overridden by the subclass) and the members of the subclass.
\<close>

definition inherited :: "pyfun \<Rightarrow> (string \<times> member) list" where
  "inherited init =
     [(''__class__'', Getset Class_slot),
      (''__delattr__'', Plain (PObject ''bound method'')),
      (''__dict__'', Getset Dict_slot),
      (''__dir__'', Plain (PObject ''bound method'')),
      (''__doc__'', Plain PNone),
      (''__eq__'', Plain (PObject ''bound method'')),
      (''__format__'', Plain (PObject ''bound method'')),
      (''__ge__'', Plain (PObject ''bound method'')),
      (''__getattribute__'', Plain (PObject ''bound method'')),
      (''__getstate__'', Plain (PObject ''bound method'')),
      (''__gt__'', Plain (PObject ''bound method'')),
      (''__hash__'', Plain (PObject ''bound method'')),
      (''__init__'', Fn init),
      (''__init_subclass__'', Plain (PObject ''bound method'')),
      (''__le__'', Plain (PObject ''bound method'')),
      (''__lt__'', Plain (PObject ''bound method'')),
      (''__module__'', Plain (PStr ''__main__'')),
      (''__ne__'', Plain (PObject ''bound method'')),
      (''__new__'', Plain (PObject ''function'')),
      (''__reduce__'', Plain (PObject ''bound method'')),
      (''__reduce_ex__'', Plain (PObject ''bound method'')),
      (''__repr__'', Plain (PObject ''bound method'')),
      (''__setattr__'', Plain (PObject ''bound method'')),
      (''__sizeof__'', Plain (PObject ''bound method'')),
      (''__str__'', Plain (PObject ''bound method'')),
      (''__subclasshook__'', Plain (PObject ''bound method'')),
      (''__weakref__'', Getset Weakref_slot)]"

definition TimeService_class :: "(string \<times> member) list" where
  "TimeService_class =
     inherited (Def 188 ''__init__'') @
     [(''_add_bus'', Fn (Def 168 ''_add_bus'')),
      (''_get_methods'', Fn (Def 162 ''_get_methods'')),
      (''_get_properties'', Fn (Def 165 ''_get_properties'')),
      (''_handle_signal'', Fn (Def 174 ''_handle_signal'')),
      (''_remove_bus'', Fn (Def 171 ''_remove_bus'')),
      (''alarm_clock'', Fn (signal None (Def 201 ''alarm_clock''))),
      (''alarm_delay'',
         Prop (setter (rpc_property None (Def 206 ''alarm_delay'')) (Def 210 ''alarm_delay''))),
      (''set_alarm'', Fn (method' None (Def 197 ''set_alarm''))),
      (''time'', Fn (method' None (Def 193 ''time'')))]"

definition RPC_class :: "(string \<times> member) list" where
  "RPC_class =
     inherited (Def 215 ''__init__'') @
     [(''_add_bus'', Fn (Def 258 ''_add_bus'')),
      (''_get_methods'', Fn (Def 162 ''_get_methods'')),
      (''_get_properties'', Fn (Def 165 ''_get_properties'')),
      (''_handle_signal'', Fn (Def 174 ''_handle_signal'')),
      (''_remove_bus'', Fn (Def 266 ''_remove_bus'')),
      (''get_all_props'', Fn (method' (Some ''Property.GetAll'') (Def 240 ''get_all_props''))),
      (''get_prop'', Fn (method' (Some ''Property.Get'') (Def 231 ''get_prop''))),
      (''introspect'', Fn (method' (Some ''Introspectable.Introspect'') (Def 252 ''introspect''))),
      (''props_changed'',
         Fn (signal (Some ''Properties.PropertiesChanged'') (Def 248 ''props_changed''))),
      (''register_interface'', Fn (Def 223 ''register_interface'')),
      (''set_prop'', Fn (method' (Some ''Property.Set'') (Def 235 ''set_prop'')))]"

text \<open>\<^verbatim>\<open>TimeService.__init__\<close>.\<close>

definition TimeService_init :: ServiceInterface where
  "TimeService_init =
     (let self = ServiceInterface_init ''ee.arti.TimeService'' TimeService_class
      in self\<lparr>attrs := (attrs self)(''_alarm_delay'' \<mapsto> PInt 1)\<rparr>)"

text \<open>
  \<^verbatim>\<open>RPC.__init__\<close>, for the object \<open>0\<close>: the attributes are set, then the object registers
  itself. The store holds an interface without members where no object has been made.
\<close>

definition RPC_init :: state where
  "RPC_init =
     (let self = ServiceInterface_init ''jrpc'' RPC_class
      in register_interface
           \<lparr>heap = (\<lambda>i. ServiceInterface_init [] [])
                     (0 := self\<lparr>attrs := (attrs self)(''dispatcher'' \<mapsto> PObject ''Dispatcher'',
                                    ''interfaces'' \<mapsto> PObject ''dict'', ''bus'' \<mapsto> PObject ''set'')\<rparr>),
            loop = [], rpc = 0, interfaces = [], dispatcher = Map.empty, rpc_bus = []\<rparr>
           0)"

text \<open>The first two lines of \<^verbatim>\<open>main\<close>: the \<^verbatim>\<open>TimeService\<close> object is \<open>1\<close>.\<close>

definition main :: state where
  "main = register_interface (RPC_init\<lparr>heap := (heap RPC_init)(1 := TimeService_init)\<rparr>) 1"

text \<open>
  The bodies of the plain functions that the attribute access and the signals of this
  program call: the getter and the setter of \<^verbatim>\<open>alarm_delay\<close> (the class has no member
  \<^verbatim>\<open>_alarm_delay\<close>, so \<^verbatim>\<open>self._alarm_delay\<close> is the instance's attribute), and the bodies of
  the two signals (\<^verbatim>\<open>print\<close> is left out); a call with the wrong number of arguments is a
  \<^verbatim>\<open>TypeError\<close>. The remaining functions are called by the JSON-RPC dispatcher only, which
  is outside this theory.
\<close>

definition program :: code where
  "program f self args s =
     (if f = Def 206 ''alarm_delay'' then
        (case args of
           [] \<Rightarrow>
             (case attrs (heap s self) ''_alarm_delay'' of
                None \<Rightarrow> (Inl AttributeError, s)
              | Some v \<Rightarrow> (Inr v, s))
         | _ \<Rightarrow> (Inl TypeError, s))
      else if f = Def 210 ''alarm_delay'' then
        (case args of
           [v] \<Rightarrow>
             (Inr PNone,
              s\<lparr>heap := (heap s)(self := (heap s self)\<lparr>attrs :=
                   (attrs (heap s self))(''_alarm_delay'' \<mapsto> v)\<rparr>)\<rparr>)
         | _ \<Rightarrow> (Inl TypeError, s))
      else if f = Def 201 ''alarm_clock'' then
        (case args of [] \<Rightarrow> (Inr (PStr ''ALARM''), s) | _ \<Rightarrow> (Inl TypeError, s))
      else if f = Def 248 ''props_changed'' then
        (case args of [interface_name] \<Rightarrow> (Inr PNone, s) | _ \<Rightarrow> (Inl TypeError, s))
      else (Inl (Raised ''called by the dispatcher only''), s))"

text \<open>
  A third interface, for the cases the two classes of the program do not show: a member
  that is decorated twice, a property without a setter, and a property that is declared
  under another name than its attribute. Its functions are numbered by the lines of this
  listing.

  \<^verbatim>\<open>
  class Example(ServiceInterface):
      def __init__(self):
          super().__init__("org.example")
      @method()
      @signal()
      def ping(self):
          return "pong"
      @rpc_property()
      def version(self):
          return 1
      @rpc_property("Level")
      def level(self):
          return 0
      @level.setter
      def level(self, value):
          pass
  \<close>
\<close>

definition Example_class :: "(string \<times> member) list" where
  "Example_class =
     inherited (Def 2 ''__init__'') @
     [(''_add_bus'', Fn (Def 168 ''_add_bus'')),
      (''_get_methods'', Fn (Def 162 ''_get_methods'')),
      (''_get_properties'', Fn (Def 165 ''_get_properties'')),
      (''_handle_signal'', Fn (Def 174 ''_handle_signal'')),
      (''_remove_bus'', Fn (Def 171 ''_remove_bus'')),
      (''level'',
         Prop (setter (rpc_property (Some ''Level'') (Def 12 ''level'')) (Def 15 ''level''))),
      (''ping'', Fn (method' None (signal None (Def 6 ''ping'')))),
      (''version'', Prop (rpc_property None (Def 9 ''version'')))]"

definition with_Example :: state where
  "with_Example =
     register_interface
       (main\<lparr>heap := (heap main)(2 := ServiceInterface_init ''org.example'' Example_class)\<rparr>) 2"

text \<open>The program with the peers \<open>1\<close>, \<open>2\<close> and \<open>3\<close> connected, as \<^verbatim>\<open>ws_handler\<close> adds them.\<close>

definition three_peers :: state where
  "three_peers = RPC_add_bus (RPC_add_bus (RPC_add_bus main 1) 2) 3"

section \<open>The dispatch boundary\<close>

text \<open>
  Calling an entry of the dispatch table, \<^verbatim>\<open>partial(method.fn, interface)\<close>, with positional
  arguments. The four methods of \<^verbatim>\<open>RPC\<close> are the functions above, bound to the \<^verbatim>\<open>RPC\<close>
  object; a call with the wrong number of arguments is a \<^verbatim>\<open>TypeError\<close>. \<^verbatim>\<open>get_all_props\<close>
  returns a dict whose keys are \<^verbatim>\<open>_Property\<close> objects, which is a value of this model only
  when it is empty. \<^verbatim>\<open>time\<close> reads the clock and \<^verbatim>\<open>set_alarm\<close> sets a timer of the event loop;
  both are outside this model (\<open>None\<close>). Any other function is called through \<open>call\<close>.
\<close>

definition invoke_bound ::
  "code \<Rightarrow> state \<Rightarrow> pyfun \<times> oid \<Rightarrow> pyval list \<Rightarrow> ((error + pyval) \<times> state) option" where
  "invoke_bound body s bound args =
     (let fn = fst bound; self = snd bound in
      if fn \<in> {Def 231 ''get_prop'', Def 235 ''set_prop'', Def 240 ''get_all_props'',
                Def 252 ''introspect''} then
        (if self \<noteq> rpc s then None
         else if fn = Def 231 ''get_prop'' then
           (case args of
              [interface_name, property_name] \<Rightarrow>
                Some (get_prop body s interface_name property_name)
            | _ \<Rightarrow> Some (Inl TypeError, s))
         else if fn = Def 235 ''set_prop'' then
           (case args of
              [interface_name, property_name, v] \<Rightarrow>
                set_prop body s interface_name property_name v
            | _ \<Rightarrow> Some (Inl TypeError, s))
         else if fn = Def 240 ''get_all_props'' then
           (case args of
              [interface_name] \<Rightarrow>
                (case get_all_props body s interface_name of
                   (Inl e, s') \<Rightarrow> Some (Inl e, s')
                 | (Inr [], s') \<Rightarrow> Some (Inr (PDict []), s')
                 | (Inr (kv # kvs), s') \<Rightarrow> None)
            | _ \<Rightarrow> Some (Inl TypeError, s))
         else
           (case args of
              [] \<Rightarrow> Some (Inr (introspect s), s)
            | _ \<Rightarrow> Some (Inl TypeError, s)))
      else if fn \<in> {Def 193 ''time'', Def 197 ''set_alarm''} then None
      else Some (call body fn self args s))"

text \<open>
  Modelled from the spec: the JSON-RPC codec and dispatcher
  (\<^verbatim>\<open>jsonrpc.JSONRPCResponseManager.handle\<close> in \<^verbatim>\<open>ws_handler\<close>), an external collaborator that
  is not among the sources. Sections 4.3 and 7 of the spec: the method key is looked up
  in the dispatch table; if it is absent, the boundary reports \<^verbatim>\<open>MethodNotFound\<close>; if it is
  found, the bound function is called with the params, and an exception raised by the
  handler is caught at the boundary and reported to the peer as a protocol error:
  \<open>Error_response e\<close> is that error response for the exception \<open>e\<close> (\<^verbatim>\<open>InternalError\<close>, or
  \<^verbatim>\<open>InvalidParams\<close> where the params do not fit the handler, which Python signals by a
  \<^verbatim>\<open>TypeError\<close> of the call). Otherwise the result is the response.
\<close>

datatype response = Result pyval | Error_MethodNotFound | Error_response error

definition dispatch ::
  "code \<Rightarrow> state \<Rightarrow> string \<Rightarrow> pyval list \<Rightarrow> (response \<times> state) option" where
  "dispatch body s key params =
     (case dispatcher s key of
        None \<Rightarrow> Some (Error_MethodNotFound, s)
      | Some bound \<Rightarrow>
          (case invoke_bound body s bound params of
             None \<Rightarrow> None
           | Some (Inl e, s') \<Rightarrow> Some (Error_response e, s')
           | Some (Inr v, s') \<Rightarrow> Some (Result v, s')))"

section \<open>The event loop\<close>

text \<open>
  What \<^verbatim>\<open>asyncio\<close> does with the tasks of \<^verbatim>\<open>_handle_signal\<close>, which are created while the
  signal is fired and run after it has returned. When a task is done, its text has
  reached the peer unless the send raised (\<open>fails\<close> says for which tasks the transport
  raises), and the done callback \<^verbatim>\<open>resolve_task\<close> is called; an exception of the callback
  goes to the loop's exception handler, here a log, and to no caller. The tasks are done
  in the order of the list \<open>order\<close>.
\<close>

definition task_done ::
  "(task \<Rightarrow> bool) \<Rightarrow> state \<times> (peer \<times> string) list \<times> error list \<Rightarrow> task \<Rightarrow>
     state \<times> (peer \<times> string) list \<times> error list" where
  "task_done fails acc t =
     (case acc of (s, received, log) \<Rightarrow>
        (let received' = (if fails t then received else received @ [(target t, payload t)])
         in case resolve_task (s\<lparr>loop := remove1 t (loop s)\<rparr>) (owner t) (target t) (fails t) of
              (Inl e, s') \<Rightarrow> (s', received', log @ [e])
            | (Inr u, s') \<Rightarrow> (s', received', log)))"

definition run_loop ::
  "(task \<Rightarrow> bool) \<Rightarrow> task list \<Rightarrow> state \<Rightarrow> state \<times> (peer \<times> string) list \<times> error list" where
  "run_loop fails order s = foldl (task_done fails) (s, [], []) order"

section \<open>Discovery of the members\<close>

text \<open>
  One step of the loop of \<^verbatim>\<open>__init__\<close>, while \<^verbatim>\<open>__properties_getters\<close> holds the getters of
  the properties found so far: the getters stay distinct, a property is added only if
  the member is one, and afterwards the member's getter is among the getters.
\<close>

lemma discover_getters:
  assumes "properties_getters self = fget ` set (properties self)"
    and "distinct (map fget (properties self))"
  shows "properties_getters (discover self nm) = fget ` set (properties (discover self nm))
       \<and> distinct (map fget (properties (discover self nm)))"
  using assms
  by (auto simp: discover_def Let_def split: option.splits member.splits)

lemma discover_properties:
  assumes "properties_getters self = fget ` set (properties self)"
  shows "set (properties (discover self nm)) \<subseteq> set (properties self) \<union> {p. snd nm = Prop p}"
    and "fget ` set (properties (discover self nm)) =
           fget ` set (properties self) \<union> fget ` {p. snd nm = Prop p}"
  using assms
  by (auto simp: discover_def Let_def split: option.splits member.splits)

lemma foldl_discover_getters:
  "properties_getters self = fget ` set (properties self) \<Longrightarrow>
   distinct (map fget (properties self)) \<Longrightarrow>
   properties_getters (foldl discover self ms) = fget ` set (properties (foldl discover self ms))
     \<and> distinct (map fget (properties (foldl discover self ms)))"
proof (induction ms arbitrary: self)
  case Nil
  then show ?case by simp
next
  case (Cons m ms)
  from discover_getters [OF Cons.prems, of m] show ?case
    by (simp add: Cons.IH)
qed

lemma foldl_discover_properties:
  "properties_getters self = fget ` set (properties self) \<Longrightarrow>
   distinct (map fget (properties self)) \<Longrightarrow>
   set (properties (foldl discover self ms)) \<subseteq>
     set (properties self) \<union> {p. \<exists>n. (n, Prop p) \<in> set ms}
   \<and> fget ` set (properties (foldl discover self ms)) =
     fget ` set (properties self) \<union> fget ` {p. \<exists>n. (n, Prop p) \<in> set ms}"
proof (induction ms arbitrary: self)
  case Nil
  then show ?case by simp
next
  case (Cons m ms)
  from discover_getters [OF Cons.prems, of m]
  have g: "properties_getters (discover self m) = fget ` set (properties (discover self m))"
    and d: "distinct (map fget (properties (discover self m)))"
    by simp_all
  from Cons.IH [OF g d]
  have sub: "set (properties (foldl discover (discover self m) ms)) \<subseteq>
       set (properties (discover self m)) \<union> {p. \<exists>n. (n, Prop p) \<in> set ms}"
    and img: "fget ` set (properties (foldl discover (discover self m) ms)) =
       fget ` set (properties (discover self m)) \<union> fget ` {p. \<exists>n. (n, Prop p) \<in> set ms}"
    by simp_all
  have m: "{p. snd m = Prop p} \<subseteq> {p. \<exists>n. (n, Prop p) \<in> set (m # ms)}"
    by (cases m) auto
  have ms: "{p. \<exists>n. (n, Prop p) \<in> set (m # ms)} =
      {p. snd m = Prop p} \<union> {p. \<exists>n. (n, Prop p) \<in> set ms}"
    by (cases m) auto
  have "set (properties (foldl discover self (m # ms))) \<subseteq>
      set (properties self) \<union> {p. \<exists>n. (n, Prop p) \<in> set (m # ms)}"
    using sub discover_properties(1) [OF Cons.prems(1), of m] m ms by auto
  moreover have "fget ` set (properties (foldl discover self (m # ms))) =
      fget ` set (properties self) \<union> fget ` {p. \<exists>n. (n, Prop p) \<in> set (m # ms)}"
    unfolding ms image_Un
    using img discover_properties(2) [OF Cons.prems(1), of m] by auto
  ultimately show ?case by blast
qed

text \<open>
  C9. In the property list that \<^verbatim>\<open>ServiceInterface.__init__\<close> builds, whatever the members
  of the class are and however often a property with the same getter is among them:
  no two entries have the same getter; every entry is a property member of the class;
  and the getters of the entries are exactly the getters of the property members. So
  every getter that is discovered has exactly one entry.
\<close>

theorem one_property_per_getter:
  "distinct (map fget (properties (ServiceInterface_init nm members))) \<and>
   set (properties (ServiceInterface_init nm members)) \<subseteq> {p. \<exists>n. (n, Prop p) \<in> set members} \<and>
   fget ` set (properties (ServiceInterface_init nm members)) =
     fget ` {p. \<exists>n. (n, Prop p) \<in> set members}"
proof -
  let ?self = "\<lparr>name = nm, methods = [], properties = [], properties_getters = {}, signals = [],
        bus = [], cls = members,
        attrs = [''name'' \<mapsto> PStr nm,
                 ''_ServiceInterface__methods'' \<mapsto> PObject ''list'',
                 ''_ServiceInterface__properties'' \<mapsto> PObject ''list'',
                 ''_ServiceInterface__signals'' \<mapsto> PObject ''list'',
                 ''_ServiceInterface__bus'' \<mapsto> PObject ''set'']\<rparr>"
  have g: "properties_getters ?self = fget ` set (properties ?self)"
    and d: "distinct (map fget (properties ?self))"
    by simp_all
  have p: "properties (ServiceInterface_init nm members) = properties (foldl discover ?self members)"
    by (simp add: ServiceInterface_init_def)
  from foldl_discover_getters [OF g d, of members] foldl_discover_properties [OF g d, of members]
  show ?thesis
    unfolding p by simp
qed

text \<open>
  A class in which the same property is found twice, under the names \<^verbatim>\<open>a\<close> and \<^verbatim>\<open>b\<close>, next
  to a property with another getter: the list has the first once, and the other.
\<close>

lemma same_getter_twice:
  "properties (ServiceInterface_init ''x''
      [(''a'', Prop (Property (Def 1 ''a'') None ''a'')),
       (''b'', Prop (Property (Def 1 ''a'') None ''a'')),
       (''c'', Prop (Property (Def 3 ''c'') None ''c''))]) =
     [Property (Def 1 ''a'') None ''a'', Property (Def 3 ''c'') None ''c'']"
  by (simp add: ServiceInterface_init_def discover_def)

section \<open>The program's registry\<close>

text \<open>What the loop of \<^verbatim>\<open>__init__\<close> does with each kind of member.\<close>

lemma discover_simps:
  "discover self (n, Plain v) = self"
  "discover self (n, Getset g) = self"
  "discover self (n, Fn (Def l k)) = self"
  "discover self (n, Fn (Wrapped_method f k)) = self\<lparr>methods := methods self @ [Method f k]\<rparr>"
  "discover self (n, Fn (Wrapped_signal (Def l k') k)) =
     self\<lparr>signals := signals self @ [Signal (Def l k') k]\<rparr>"
  "discover self (n, Prop p) =
     (if fget p \<in> properties_getters self then self
      else self\<lparr>properties_getters := insert (fget p) (properties_getters self),
                properties := properties self @ [p]\<rparr>)"
  by (simp_all add: discover_def Let_def)

lemma foldl_discover_inherited: "foldl discover self (inherited (Def l k)) = self"
  by (simp add: inherited_def discover_simps)

lemmas class_defs = TimeService_class_def RPC_class_def method'_def signal_def
  rpc_property_def setter_def name_or_def

lemmas init_defs = ServiceInterface_init_def foldl_discover_inherited discover_simps
  TimeService_init_def RPC_init_def main_def register_interface_def get_methods_def
  add_method_def Let_def

lemma main_interfaces: "interfaces main = [(''jrpc'', 0), (''ee.arti.TimeService'', 1)]"
  by (simp add: init_defs class_defs)

lemma main_rpc: "rpc main = 0"
  by (simp add: init_defs class_defs)

lemma main_loop: "loop main = []"
  by (simp add: init_defs class_defs)

lemma main_rpc_bus: "rpc_bus main = []"
  by (simp add: init_defs class_defs)

lemma main_heap_0:
  "methods (heap main 0) =
     [Method (Def 240 ''get_all_props'') ''Property.GetAll'',
      Method (Def 231 ''get_prop'') ''Property.Get'',
      Method (Def 252 ''introspect'') ''Introspectable.Introspect'',
      Method (Def 235 ''set_prop'') ''Property.Set'']"
  "signals (heap main 0) = [Signal (Def 248 ''props_changed'') ''Properties.PropertiesChanged'']"
  "properties (heap main 0) = []"
  "bus (heap main 0) = []"
  "cls (heap main 0) = RPC_class"
  "name (heap main 0) = ''jrpc''"
  by (simp_all add: init_defs class_defs)

lemma main_heap_1:
  "methods (heap main 1) =
     [Method (Def 197 ''set_alarm'') ''set_alarm'', Method (Def 193 ''time'') ''time'']"
  "signals (heap main 1) = [Signal (Def 201 ''alarm_clock'') ''alarm_clock'']"
  "properties (heap main 1) =
     [Property (Def 206 ''alarm_delay'') (Some (Def 210 ''alarm_delay'')) ''alarm_delay'']"
  "bus (heap main 1) = []"
  "cls (heap main 1) = TimeService_class"
  "name (heap main 1) = ''ee.arti.TimeService''"
  by (simp_all add: init_defs class_defs)

lemmas main_heap_Suc = main_heap_1 [unfolded One_nat_def]

text \<open>
  C8. \<^verbatim>\<open>Introspectable.Introspect\<close> on the program's registry: each of the two interfaces
  is listed with empty \<^verbatim>\<open>methods\<close>, \<^verbatim>\<open>signals\<close> and \<^verbatim>\<open>properties\<close>, although
  \<^verbatim>\<open>ee.arti.TimeService\<close> has two methods, a signal and a property.
\<close>

theorem introspect_main:
  "introspect main =
     PDict [(''interfaces'',
       PDict [(''jrpc'',
                PDict [(''methods'', PDict []), (''signals'', PDict []), (''properties'', PDict [])]),
              (''ee.arti.TimeService'',
                PDict [(''methods'', PDict []), (''signals'', PDict []), (''properties'', PDict [])])])]
   \<and> map m_name (methods (heap main 1)) = [''set_alarm'', ''time'']
   \<and> map s_name (signals (heap main 1)) = [''alarm_clock'']
   \<and> map p_name (properties (heap main 1)) = [''alarm_delay'']"
  by (simp add: introspect_def main_interfaces main_heap_1 main_heap_Suc)

text \<open>
  \<^verbatim>\<open>Property.GetAll\<close> raises \<^verbatim>\<open>TypeError\<close> for every registered interface that has a
  property, and returns the empty dict for one that has none.
\<close>

lemma get_all_props_TypeError:
  assumes "getitem (interfaces s) i = Inr obj"
  shows "get_all_props body s i =
           (if properties (heap s obj) = [] then (Inr [], s) else (Inl TypeError, s))"
  using assms
  by (cases "properties (heap s obj)") (simp_all add: get_all_props_def get_properties_def)

text \<open>
  C3. \<^verbatim>\<open>Property.GetAll("ee.arti.TimeService")\<close> raises \<^verbatim>\<open>TypeError\<close>: the loop hands the
  \<^verbatim>\<open>_Property\<close> object of \<^verbatim>\<open>alarm_delay\<close>, not its name, to \<^verbatim>\<open>getattr\<close>.
\<close>

theorem get_all_props_TimeService:
  "get_all_props program main (PStr ''ee.arti.TimeService'') = (Inl TypeError, main)
   \<and> map p_name (get_properties (heap main 1)) = [''alarm_delay'']"
  by (simp add: get_all_props_def get_properties_def main_interfaces main_heap_1 main_heap_Suc)

text \<open>
  C2. Peer \<open>7\<close> connects and disconnects at once. \<^verbatim>\<open>RPC._remove_bus\<close> returns without an
  exception and has removed the peer from \<^verbatim>\<open>RPC.bus\<close> and from the bus of
  \<^verbatim>\<open>TimeService\<close>, but the peer is still in the bus of the \<^verbatim>\<open>RPC\<close> interface itself.
\<close>

theorem remove_bus_keeps_peer:
  "fst (RPC_remove_bus (RPC_add_bus main 7) 7) = Inr () \<and>
   rpc_bus (snd (RPC_remove_bus (RPC_add_bus main 7) 7)) = [] \<and>
   bus (heap (snd (RPC_remove_bus (RPC_add_bus main 7) 7)) 1) = [] \<and>
   bus (heap (snd (RPC_remove_bus (RPC_add_bus main 7) 7)) 0) = [7]"
  by (simp add: RPC_remove_bus_def RPC_add_bus_def main_interfaces main_rpc main_rpc_bus main_heap_0 main_heap_1 main_heap_Suc
      set_add_def set_remove_def ServiceInterface_add_bus_def ServiceInterface_remove_bus_def)

text \<open>
  C1. With peer \<open>7\<close> connected, firing \<^verbatim>\<open>alarm_clock\<close> on \<^verbatim>\<open>TimeService\<close> returns the
  handler's result \<^verbatim>\<open>"ALARM"\<close> and creates one task for the peer. The text it sends is
  the fixed one of \<^verbatim>\<open>_handle_signal\<close>, which names neither
  \<^verbatim>\<open>ee.arti.TimeService.alarm_clock\<close> nor the result.
\<close>

theorem alarm_clock_text:
  \<open>fst (call program (signal None (Def 201 ''alarm_clock'')) 1 [] (RPC_add_bus main 7)) =
     Inr (PStr ''ALARM'') \<and>
   loop (snd (call program (signal None (Def 201 ''alarm_clock'')) 1 [] (RPC_add_bus main 7))) =
     [\<lparr>target = 7,
       payload = ''{"jsonrpc: "2.0", "method":"a.signal.bla", "params": ["hello"]}'',
       owner = 1\<rparr>]\<close>
  by (simp add: signal_def name_or_def program_def ServiceInterface_handle_signal_def signal_text_def
      RPC_add_bus_def main_interfaces main_rpc main_rpc_bus main_heap_0 main_heap_1 main_heap_Suc main_loop
      set_add_def ServiceInterface_add_bus_def)

lemma handle_signal_ignores_arguments:
  "ServiceInterface_handle_signal s self sig result = ServiceInterface_handle_signal s self sig' result'"
  by (simp add: ServiceInterface_handle_signal_def)


section \<open>Registration and the dispatch table\<close>

lemma methods_discover:
  "methods (discover self m) =
     methods self @ (case RPC_METHOD (getattr_dict (snd m)) of None \<Rightarrow> [] | Some x \<Rightarrow> [x])"
  by (auto simp: discover_def Let_def split: option.splits member.splits)

lemma methods_foldl_discover:
  "methods (foldl discover self ms) =
     methods self @ List.map_filter (\<lambda>x. RPC_METHOD (getattr_dict (snd x))) ms"
proof (induction ms arbitrary: self)
  case Nil
  then show ?case by (simp add: List.map_filter_simps)
next
  case (Cons m ms)
  show ?case
    by (simp add: Cons.IH methods_discover List.map_filter_simps split: option.splits)
qed

lemma methods_init:
  "methods (ServiceInterface_init nm members) =
     List.map_filter (\<lambda>x. RPC_METHOD (getattr_dict (snd x))) members"
  by (simp add: ServiceInterface_init_def methods_foldl_discover)

lemma name_discover: "name (discover self m) = name self"
  by (auto simp: discover_def Let_def split: option.splits member.splits)

lemma name_foldl_discover: "name (foldl discover self ms) = name self"
  by (induction ms arbitrary: self) (simp_all add: name_discover)

lemma name_init: "name (ServiceInterface_init nm members) = nm"
  by (simp add: ServiceInterface_init_def name_foldl_discover)

lemma dispatcher_foldl_add_method:
  "dispatcher (foldl (\<lambda>s' m. add_method s' (b m) (k m)) s0 ms) =
     foldl (\<lambda>d m. d(k m \<mapsto> b m)) (dispatcher s0) ms"
  by (induction ms arbitrary: s0) (simp_all add: add_method_def)

lemma dispatcher_register_interface:
  "dispatcher (register_interface s i) =
     foldl (\<lambda>d m. d(name (heap s i) @ ''.'' @ m_name m \<mapsto> (m_fn m, i))) (dispatcher s)
       (methods (heap s i))"
  unfolding register_interface_def get_methods_def
  by (subst dispatcher_foldl_add_method) simp

lemma dom_foldl_upd: "dom (foldl (\<lambda>d m. d(k m \<mapsto> b m)) d0 ms) = dom d0 \<union> k ` set ms"
  by (induction ms arbitrary: d0) auto

lemma map_filter_filter:
  "List.map_filter f (filter (\<lambda>x. f x \<noteq> None) xs) = List.map_filter f xs"
  by (induction xs) (auto simp: List.map_filter_simps split: option.splits)

lemma set_map_filter: "set (List.map_filter f xs) = {y. \<exists>x \<in> set xs. f x = Some y}"
  by (induction xs) (auto simp: List.map_filter_simps split: option.splits)

lemma map_filter_append: "List.map_filter f (xs @ ys) = List.map_filter f xs @ List.map_filter f ys"
  by (simp add: List.map_filter_def)

lemma methods_inherited:
  "List.map_filter (\<lambda>x. RPC_METHOD (getattr_dict (snd x))) (inherited (Def l k) @ ms) =
     List.map_filter (\<lambda>x. RPC_METHOD (getattr_dict (snd x))) ms"
  by (simp add: map_filter_append inherited_def List.map_filter_simps)

lemma bus_discover: "bus (discover self m) = bus self"
  by (auto simp: discover_def Let_def split: option.splits member.splits)

lemma bus_foldl_discover: "bus (foldl discover self ms) = bus self"
  by (induction ms arbitrary: self) (simp_all add: bus_discover)

lemma bus_init: "bus (ServiceInterface_init nm members) = []"
  by (simp add: ServiceInterface_init_def bus_foldl_discover)

text \<open>
  C10, as amended. The interface is an object as \<^verbatim>\<open>ServiceInterface.__init__\<close> made it from
  the members of its class, whatever its bus and its further attributes are. Registering
  it adds to the dispatch table exactly the keys \<^verbatim>\<open>"<interface name>.<method name>"\<close> of
  the members whose \<^verbatim>\<open>__dict__\<close> has the tag \<^verbatim>\<open>__RPC_METHOD\<close>; the members without that tag
  add nothing: the table is the one that the class without them gives.
\<close>

theorem register_interface_dispatch_keys:
  assumes "heap s i = (ServiceInterface_init nm members)\<lparr>bus := b, attrs := a\<rparr>"
  shows "dom (dispatcher (register_interface s i)) =
           dom (dispatcher s) \<union>
           {nm @ ''.'' @ m_name m | m. \<exists>x \<in> set members. RPC_METHOD (getattr_dict (snd x)) = Some m}
       \<and> dispatcher (register_interface s i) =
           dispatcher (register_interface
             (s\<lparr>heap := (heap s)(i := (ServiceInterface_init nm
                 (filter (\<lambda>x. RPC_METHOD (getattr_dict (snd x)) \<noteq> None) members))
                   \<lparr>bus := b, attrs := a\<rparr>)\<rparr>) i)"
proof
  have "dom (dispatcher (register_interface s i)) =
          dom (dispatcher s) \<union> (\<lambda>m. nm @ ''.'' @ m_name m) ` set (methods (heap s i))"
    unfolding dispatcher_register_interface
    by (subst dom_foldl_upd) (simp add: assms name_init)
  also have "set (methods (heap s i)) =
      {m. \<exists>x \<in> set members. RPC_METHOD (getattr_dict (snd x)) = Some m}"
    by (simp add: assms methods_init set_map_filter)
  finally show "dom (dispatcher (register_interface s i)) =
           dom (dispatcher s) \<union>
           {nm @ ''.'' @ m_name m | m. \<exists>x \<in> set members. RPC_METHOD (getattr_dict (snd x)) = Some m}"
    by (simp add: image_Collect)
next
  show "dispatcher (register_interface s i) =
           dispatcher (register_interface
             (s\<lparr>heap := (heap s)(i := (ServiceInterface_init nm
                 (filter (\<lambda>x. RPC_METHOD (getattr_dict (snd x)) \<noteq> None) members))
                   \<lparr>bus := b, attrs := a\<rparr>)\<rparr>) i)"
    by (simp add: dispatcher_register_interface assms methods_init name_init map_filter_filter
          del: not_None_eq)
qed

lemma TimeService_init_eq:
  "heap (RPC_init\<lparr>heap := (heap RPC_init)(1 := TimeService_init)\<rparr>) 1 =
     (ServiceInterface_init ''ee.arti.TimeService'' TimeService_class)
       \<lparr>bus := [],
        attrs := (attrs (ServiceInterface_init ''ee.arti.TimeService'' TimeService_class))
                   (''_alarm_delay'' \<mapsto> PInt 1)\<rparr>"
  by (simp add: TimeService_init_def Let_def bus_init)

lemma TimeService_method_keys:
  "{''ee.arti.TimeService'' @ ''.'' @ m_name m | m.
      \<exists>x \<in> set TimeService_class. RPC_METHOD (getattr_dict (snd x)) = Some m} =
   {''ee.arti.TimeService.set_alarm'', ''ee.arti.TimeService.time''}"
proof -
  have "List.map_filter (\<lambda>x. RPC_METHOD (getattr_dict (snd x))) TimeService_class =
          [Method (Def 197 ''set_alarm'') ''set_alarm'', Method (Def 193 ''time'') ''time'']"
    by (simp add: TimeService_class_def methods_inherited List.map_filter_simps method'_def
        signal_def rpc_property_def setter_def name_or_def)
  then have "set (List.map_filter (\<lambda>x. RPC_METHOD (getattr_dict (snd x))) TimeService_class) =
          {Method (Def 197 ''set_alarm'') ''set_alarm'', Method (Def 193 ''time'') ''time''}"
    by simp
  then have "{m. \<exists>x \<in> set TimeService_class. RPC_METHOD (getattr_dict (snd x)) = Some m} =
          {Method (Def 197 ''set_alarm'') ''set_alarm'', Method (Def 193 ''time'') ''time''}"
    by (simp only: set_map_filter)
  then have "{''ee.arti.TimeService'' @ ''.'' @ m_name m | m.
      \<exists>x \<in> set TimeService_class. RPC_METHOD (getattr_dict (snd x)) = Some m} =
      (\<lambda>m. ''ee.arti.TimeService'' @ ''.'' @ m_name m) `
        {Method (Def 197 ''set_alarm'') ''set_alarm'', Method (Def 193 ''time'') ''time''}"
    by (simp only: image_Collect [symmetric])
  then show ?thesis by simp
qed

text \<open>
  The theorem at the second line of \<^verbatim>\<open>main\<close>, which registers the \<^verbatim>\<open>TimeService\<close> object:
  the keys of its two methods are added, none for \<^verbatim>\<open>alarm_clock\<close> or \<^verbatim>\<open>alarm_delay\<close>.
\<close>

theorem register_interface_dispatch_keys_witness:
  "heap (RPC_init\<lparr>heap := (heap RPC_init)(1 := TimeService_init)\<rparr>) 1 =
     (ServiceInterface_init ''ee.arti.TimeService'' TimeService_class)
       \<lparr>bus := [],
        attrs := (attrs (ServiceInterface_init ''ee.arti.TimeService'' TimeService_class))
                   (''_alarm_delay'' \<mapsto> PInt 1)\<rparr>
   \<and> dom (dispatcher main) =
       dom (dispatcher RPC_init) \<union>
       {''ee.arti.TimeService.set_alarm'', ''ee.arti.TimeService.time''}"
proof -
  have d: "dispatcher (RPC_init\<lparr>heap := (heap RPC_init)(1 := TimeService_init)\<rparr>) = dispatcher RPC_init"
    by simp
  have "dom (dispatcher main) =
       dom (dispatcher (RPC_init\<lparr>heap := (heap RPC_init)(1 := TimeService_init)\<rparr>)) \<union>
       {''ee.arti.TimeService'' @ ''.'' @ m_name m | m.
          \<exists>x \<in> set TimeService_class. RPC_METHOD (getattr_dict (snd x)) = Some m}"
    unfolding main_def
    by (rule conjunct1 [OF register_interface_dispatch_keys [OF TimeService_init_eq]])
  then have "dom (dispatcher main) =
       dom (dispatcher RPC_init) \<union>
       {''ee.arti.TimeService.set_alarm'', ''ee.arti.TimeService.time''}"
    by (simp only: d TimeService_method_keys)
  with TimeService_init_eq show ?thesis by (rule conjI)
qed

lemma other_fields_foldl_add_method:
  "heap (foldl (\<lambda>s' m. add_method s' (b m) (k m)) s0 ms) = heap s0"
  "interfaces (foldl (\<lambda>s' m. add_method s' (b m) (k m)) s0 ms) = interfaces s0"
  "rpc (foldl (\<lambda>s' m. add_method s' (b m) (k m)) s0 ms) = rpc s0"
  "rpc_bus (foldl (\<lambda>s' m. add_method s' (b m) (k m)) s0 ms) = rpc_bus s0"
  "loop (foldl (\<lambda>s' m. add_method s' (b m) (k m)) s0 ms) = loop s0"
  by (induction ms arbitrary: s0) (simp_all add: add_method_def)

lemma other_fields_register_interface:
  "heap (register_interface s i) = heap s"
  "interfaces (register_interface s i) = AList.update (name (heap s i)) i (interfaces s)"
  "rpc (register_interface s i) = rpc s"
  "rpc_bus (register_interface s i) = rpc_bus s"
  "loop (register_interface s i) = loop s"
  unfolding register_interface_def
  by (simp_all add: other_fields_foldl_add_method)

lemma cls_discover: "cls (discover self m) = cls self"
  by (auto simp: discover_def Let_def split: option.splits member.splits)

lemma cls_foldl_discover: "cls (foldl discover self ms) = cls self"
  by (induction ms arbitrary: self) (simp_all add: cls_discover)

lemma cls_init: "cls (ServiceInterface_init nm members) = members"
  by (simp add: ServiceInterface_init_def cls_foldl_discover)

text \<open>
  C10 as stated fails for a member that carries both tags: \<^verbatim>\<open>ping\<close> of \<^verbatim>\<open>Example\<close> is
  tagged as a signal, and \<^verbatim>\<open>__init__\<close> tests the method tag first, so
  \<^verbatim>\<open>org.example.ping\<close> is in the dispatch table, bound to the signal's wrapper.
\<close>

theorem signal_tagged_member_dispatched:
  "RPC_SIGNAL (getattr_dict (Fn (method' None (signal None (Def 6 ''ping''))))) =
     Some (Signal (Def 6 ''ping'') ''ping'')
   \<and> map_of (cls (heap with_Example 2)) ''ping'' = Some (Fn (method' None (signal None (Def 6 ''ping''))))
   \<and> dispatcher with_Example ''org.example.ping'' = Some (signal None (Def 6 ''ping''), 2)"
proof -
  have d: "dispatcher with_Example ''org.example.ping'' = Some (signal None (Def 6 ''ping''), 2)"
    by (simp add: with_Example_def dispatcher_register_interface methods_init name_init
        Example_class_def methods_inherited List.map_filter_simps method'_def signal_def
        rpc_property_def setter_def name_or_def)
  have c: "map_of (cls (heap with_Example 2)) ''ping'' =
      Some (Fn (method' None (signal None (Def 6 ''ping''))))"
    by (simp add: with_Example_def other_fields_register_interface cls_init Example_class_def
        inherited_def)
  have t: "RPC_SIGNAL (getattr_dict (Fn (method' None (signal None (Def 6 ''ping''))))) =
      Some (Signal (Def 6 ''ping'') ''ping'')"
    by (simp add: method'_def signal_def name_or_def)
  from t c d show ?thesis by simp
qed

section \<open>Property access\<close>

lemma main_attrs_1:
  "attrs (heap main 1) ''name'' = Some (PStr ''ee.arti.TimeService'')"
  "attrs (heap main 1) ''_alarm_delay'' = Some (PInt 1)"
  "attrs (heap main 1) ''alarm_delay'' = None"
  "attrs (heap main 1) ''version'' = None"
  "attrs (heap main 1) ''colour'' = None"
  by (simp_all add: init_defs class_defs)

lemmas main_attrs_Suc = main_attrs_1 [unfolded One_nat_def]

lemma main_dispatcher_Get: "dispatcher main ''jrpc.Property.Get'' = Some (Def 231 ''get_prop'', 0)"
  by (simp add: main_def RPC_init_def Let_def dispatcher_register_interface methods_init name_init
      other_fields_register_interface RPC_class_def TimeService_class_def TimeService_init_def
      methods_inherited method'_def signal_def rpc_property_def setter_def name_or_def
      List.map_filter_simps)

lemma TimeService_members:
  "map_of TimeService_class ''alarm_delay'' =
     Some (Prop (Property (Def 206 ''alarm_delay'') (Some (Def 210 ''alarm_delay'')) ''alarm_delay''))"
  "map_of TimeService_class ''name'' = None"
  "map_of TimeService_class ''_alarm_delay'' = None"
  "map_of TimeService_class ''version'' = None"
  "map_of TimeService_class ''colour'' = None"
  by (simp_all add: class_defs inherited_def)

lemma with_Example_fields:
  "interfaces with_Example = [(''jrpc'', 0), (''ee.arti.TimeService'', 1), (''org.example'', 2)]"
  "heap with_Example = (heap main)(2 := ServiceInterface_init ''org.example'' Example_class)"
  "rpc with_Example = 0"
  by (simp_all add: with_Example_def other_fields_register_interface name_init main_interfaces
      main_rpc)

lemma Example_properties:
  "properties (ServiceInterface_init ''org.example'' Example_class) =
     [Property (Def 12 ''level'') (Some (Def 15 ''level'')) ''Level'',
      Property (Def 9 ''version'') None ''version'']"
  by (simp add: ServiceInterface_init_def foldl_discover_inherited discover_simps
      Example_class_def class_defs)

lemma Example_members:
  "map_of Example_class ''version'' = Some (Prop (Property (Def 9 ''version'') None ''version''))"
  "map_of Example_class ''Level'' = None"
  "map_of Example_class ''colour'' = None"
  by (simp_all add: Example_class_def class_defs inherited_def)

lemma Example_attrs:
  "attrs (ServiceInterface_init ''org.example'' Example_class) ''Level'' = None"
  "attrs (ServiceInterface_init ''org.example'' Example_class) ''colour'' = None"
  by (simp_all add: ServiceInterface_init_def foldl_discover_inherited discover_simps
      Example_class_def class_defs)

text \<open>
  C5, as amended. \<^verbatim>\<open>Property.Get\<close> with an interface name that is not registered raises
  \<^verbatim>\<open>KeyError\<close>. For a registered interface it is \<^verbatim>\<open>getattr\<close> on the object: for a property
  of the interface that is the member of the class under its declared name, it gives what
  the property's getter returns; a name that is neither a member of the class nor an
  attribute of the object raises \<^verbatim>\<open>AttributeError\<close>; and a name that is no member of the
  class but an attribute of the object gives that attribute's value. In both cases of
  failure the state is unchanged, and a request that reaches \<^verbatim>\<open>get_prop\<close> through the
  dispatch table is answered by an error response for that exception.
\<close>

theorem get_prop_result:
  "(map_of (interfaces s) i = None \<longrightarrow>
      get_prop body s (PStr i) (PStr n) = (Inl KeyError, s) \<and>
      (dispatcher s key = Some (Def 231 ''get_prop'', rpc s) \<longrightarrow>
         dispatch body s key [PStr i, PStr n] = Some (Error_response KeyError, s))) \<and>
   (\<forall>obj. map_of (interfaces s) i = Some obj \<longrightarrow>
      (\<forall>p. p \<in> set (properties (heap s obj)) \<and> p_name p = n \<and>
           map_of (cls (heap s obj)) n = Some (Prop p) \<longrightarrow>
         get_prop body s (PStr i) (PStr n) = call body (fget p) obj [] s) \<and>
      (map_of (cls (heap s obj)) n = None \<and> attrs (heap s obj) n = None \<longrightarrow>
         get_prop body s (PStr i) (PStr n) = (Inl AttributeError, s) \<and>
         (dispatcher s key = Some (Def 231 ''get_prop'', rpc s) \<longrightarrow>
            dispatch body s key [PStr i, PStr n] = Some (Error_response AttributeError, s))) \<and>
      (\<forall>v. map_of (cls (heap s obj)) n = None \<and> attrs (heap s obj) n = Some v \<longrightarrow>
         get_prop body s (PStr i) (PStr n) = (Inr v, s)))"
  by (auto simp: get_prop_def dispatch_def invoke_bound_def)

text \<open>
  The cases on the program's registry: an unknown interface, the property
  \<^verbatim>\<open>alarm_delay\<close> (its getter returns \<open>1\<close>), a name the object does not have, and the
  attribute \<^verbatim>\<open>_alarm_delay\<close>; the two failures also as requests for the key
  \<^verbatim>\<open>jrpc.Property.Get\<close>.
\<close>

theorem get_prop_result_witness:
  "get_prop program main (PStr ''org.example'') (PStr ''alarm_delay'') = (Inl KeyError, main) \<and>
   dispatch program main ''jrpc.Property.Get'' [PStr ''org.example'', PStr ''alarm_delay''] =
     Some (Error_response KeyError, main) \<and>
   get_prop program main (PStr ''ee.arti.TimeService'') (PStr ''alarm_delay'') =
     call program (Def 206 ''alarm_delay'') 1 [] main \<and>
   call program (Def 206 ''alarm_delay'') 1 [] main = (Inr (PInt 1), main) \<and>
   get_prop program main (PStr ''ee.arti.TimeService'') (PStr ''version'') = (Inl AttributeError, main) \<and>
   dispatch program main ''jrpc.Property.Get'' [PStr ''ee.arti.TimeService'', PStr ''version''] =
     Some (Error_response AttributeError, main) \<and>
   get_prop program main (PStr ''ee.arti.TimeService'') (PStr ''_alarm_delay'') = (Inr (PInt 1), main)"
proof -
  note r = get_prop_result [where s = main and body = program and key = "''jrpc.Property.Get''"]
  let ?p = "Property (Def 206 ''alarm_delay'') (Some (Def 210 ''alarm_delay'')) ''alarm_delay''"
  have d: "dispatcher main ''jrpc.Property.Get'' = Some (Def 231 ''get_prop'', rpc main)"
    by (simp add: main_dispatcher_Get main_rpc)
  have u: "map_of (interfaces main) ''org.example'' = None"
    by (simp add: main_interfaces)
  have t: "map_of (interfaces main) ''ee.arti.TimeService'' = Some 1"
    by (simp add: main_interfaces)
  have p: "?p \<in> set (properties (heap main 1))" "p_name ?p = ''alarm_delay''"
    "map_of (cls (heap main 1)) ''alarm_delay'' = Some (Prop ?p)"
    by (simp_all add: main_heap_1 main_heap_Suc TimeService_members)
  have v: "map_of (cls (heap main 1)) ''version'' = None" "attrs (heap main 1) ''version'' = None"
    by (simp_all add: main_heap_1 main_heap_Suc TimeService_members main_attrs_1 main_attrs_Suc)
  have a: "map_of (cls (heap main 1)) ''_alarm_delay'' = None"
    "attrs (heap main 1) ''_alarm_delay'' = Some (PInt 1)"
    by (simp_all add: main_heap_1 main_heap_Suc TimeService_members main_attrs_1 main_attrs_Suc)
  from r [of "''org.example''" "''alarm_delay''"] u d
  have c1: "get_prop program main (PStr ''org.example'') (PStr ''alarm_delay'') = (Inl KeyError, main)"
    and c2: "dispatch program main ''jrpc.Property.Get'' [PStr ''org.example'', PStr ''alarm_delay''] =
       Some (Error_response KeyError, main)"
    by blast+
  from r [of "''ee.arti.TimeService''" "''alarm_delay''"] t p
  have c3: "get_prop program main (PStr ''ee.arti.TimeService'') (PStr ''alarm_delay'') =
       call program (fget ?p) 1 [] main"
    by blast
  have c4: "call program (Def 206 ''alarm_delay'') 1 [] main = (Inr (PInt 1), main)"
    by (simp add: program_def main_attrs_Suc)
  from r [of "''ee.arti.TimeService''" "''version''"] t v d
  have c5: "get_prop program main (PStr ''ee.arti.TimeService'') (PStr ''version'') =
       (Inl AttributeError, main)"
    and c6: "dispatch program main ''jrpc.Property.Get'' [PStr ''ee.arti.TimeService'', PStr ''version''] =
       Some (Error_response AttributeError, main)"
    by blast+
  from r [of "''ee.arti.TimeService''" "''_alarm_delay''"] t a
  have c7: "get_prop program main (PStr ''ee.arti.TimeService'') (PStr ''_alarm_delay'') =
       (Inr (PInt 1), main)"
    by blast
  from c3 have c3': "get_prop program main (PStr ''ee.arti.TimeService'') (PStr ''alarm_delay'') =
       call program (Def 206 ''alarm_delay'') 1 [] main"
    by (simp only: Property.sel)
  from c1 c2 c3' c4 c5 c6 c7 show ?thesis by (intro conjI)
qed

text \<open>
  C5 as stated fails in two ways. \<^verbatim>\<open>name\<close> is not a property of \<^verbatim>\<open>ee.arti.TimeService\<close> (its
  only property is \<^verbatim>\<open>alarm_delay\<close>, and the class has no member \<^verbatim>\<open>name\<close>), yet
  \<^verbatim>\<open>Property.Get("ee.arti.TimeService", "name")\<close> does not fail: it returns the object's
  attribute \<^verbatim>\<open>name\<close>. And \<^verbatim>\<open>org.example\<close> has a property declared as \<^verbatim>\<open>Level\<close>, yet
  \<^verbatim>\<open>Property.Get("org.example", "Level")\<close> raises \<^verbatim>\<open>AttributeError\<close> instead of calling its
  getter, since the member of the class is \<^verbatim>\<open>level\<close>.
\<close>

theorem get_prop_plain_attribute:
  "map p_name (properties (heap main 1)) = [''alarm_delay''] \<and>
   map_of (cls (heap main 1)) ''name'' = None \<and>
   get_prop program main (PStr ''ee.arti.TimeService'') (PStr ''name'') =
     (Inr (PStr ''ee.arti.TimeService''), main) \<and>
   map p_name (properties (heap with_Example 2)) = [''Level'', ''version''] \<and>
   get_prop program with_Example (PStr ''org.example'') (PStr ''Level'') =
     (Inl AttributeError, with_Example)"
  by (simp add: get_prop_def main_interfaces main_heap_1 main_heap_Suc main_attrs_1 main_attrs_Suc
      TimeService_members with_Example_fields Example_properties Example_members Example_attrs
      cls_init)

text \<open>
  C4, as amended. \<^verbatim>\<open>Property.Set\<close> with an interface name that is not registered raises
  \<^verbatim>\<open>KeyError\<close>. For a registered interface it is \<^verbatim>\<open>setattr\<close> on the object. For a property
  of the interface that is the member of the class under its declared name: if it has a
  setter, the setter is called with the value, and the call returns \<^verbatim>\<open>None\<close> (or raises
  what the setter raises); if it has none, the call raises \<^verbatim>\<open>AttributeError\<close>. For a name
  that is neither a member of the class nor one of the names the classes themselves use
  on the object, the value is stored as an attribute of the object, and the call returns
  \<^verbatim>\<open>None\<close>.
\<close>

theorem set_prop_result:
  "(map_of (interfaces s) i = None \<longrightarrow>
      set_prop body s (PStr i) (PStr n) v = Some (Inl KeyError, s)) \<and>
   (\<forall>obj. map_of (interfaces s) i = Some obj \<longrightarrow>
      (\<forall>p f. p \<in> set (properties (heap s obj)) \<and> p_name p = n \<and>
           map_of (cls (heap s obj)) n = Some (Prop p) \<and> fset p = Some f \<longrightarrow>
         set_prop body s (PStr i) (PStr n) v =
           Some (case call body f obj [v] s of
                   (Inl e, s') \<Rightarrow> (Inl e, s')
                 | (Inr r, s') \<Rightarrow> (Inr PNone, s'))) \<and>
      (\<forall>p. p \<in> set (properties (heap s obj)) \<and> p_name p = n \<and>
           map_of (cls (heap s obj)) n = Some (Prop p) \<and> fset p = None \<longrightarrow>
         set_prop body s (PStr i) (PStr n) v = Some (Inl AttributeError, s)) \<and>
      (map_of (cls (heap s obj)) n = None \<and> n \<notin> set (framework_names s obj) \<longrightarrow>
         set_prop body s (PStr i) (PStr n) v =
           Some (Inr PNone,
              s\<lparr>heap := (heap s)(obj := (heap s obj)\<lparr>attrs := (attrs (heap s obj))(n \<mapsto> v)\<rparr>)\<rparr>)))"
  by (auto simp: set_prop_def split: sum.splits prod.splits)

text \<open>
  The four cases with the class \<^verbatim>\<open>Example\<close> registered: an unknown interface, the
  property \<^verbatim>\<open>alarm_delay\<close> with its setter, the property \<^verbatim>\<open>version\<close> without a setter, and
  the name \<^verbatim>\<open>colour\<close>, which no class has.
\<close>

theorem set_prop_result_witness:
  "set_prop program with_Example (PStr ''com.example'') (PStr ''alarm_delay'') (PInt 5) =
     Some (Inl KeyError, with_Example) \<and>
   set_prop program with_Example (PStr ''ee.arti.TimeService'') (PStr ''alarm_delay'') (PInt 5) =
     Some (case call program (Def 210 ''alarm_delay'') 1 [PInt 5] with_Example of
             (Inl e, s') \<Rightarrow> (Inl e, s')
           | (Inr r, s') \<Rightarrow> (Inr PNone, s')) \<and>
   fst (call program (Def 210 ''alarm_delay'') 1 [PInt 5] with_Example) = Inr PNone \<and>
   set_prop program with_Example (PStr ''org.example'') (PStr ''version'') (PInt 5) =
     Some (Inl AttributeError, with_Example) \<and>
   set_prop program with_Example (PStr ''org.example'') (PStr ''colour'') (PInt 5) =
     Some (Inr PNone,
      with_Example\<lparr>heap := (heap with_Example)(2 := (heap with_Example 2)\<lparr>attrs :=
         (attrs (heap with_Example 2))(''colour'' \<mapsto> PInt 5)\<rparr>)\<rparr>)"
proof -
  note r = set_prop_result [where s = with_Example and body = program and v = "PInt 5"]
  let ?p = "Property (Def 206 ''alarm_delay'') (Some (Def 210 ''alarm_delay'')) ''alarm_delay''"
  let ?q = "Property (Def 9 ''version'') None ''version''"
  have u: "map_of (interfaces with_Example) ''com.example'' = None"
    by (simp add: with_Example_fields)
  have t: "map_of (interfaces with_Example) ''ee.arti.TimeService'' = Some 1"
    by (simp add: with_Example_fields)
  have e: "map_of (interfaces with_Example) ''org.example'' = Some 2"
    by (simp add: with_Example_fields)
  have p: "?p \<in> set (properties (heap with_Example 1))" "p_name ?p = ''alarm_delay''"
    "map_of (cls (heap with_Example 1)) ''alarm_delay'' = Some (Prop ?p)"
    "fset ?p = Some (Def 210 ''alarm_delay'')"
    by (simp_all add: with_Example_fields main_heap_1 main_heap_Suc TimeService_members)
  have q: "?q \<in> set (properties (heap with_Example 2))" "p_name ?q = ''version''"
    "map_of (cls (heap with_Example 2)) ''version'' = Some (Prop ?q)" "fset ?q = None"
    by (simp_all add: with_Example_fields Example_properties Example_members cls_init)
  have c: "map_of (cls (heap with_Example 2)) ''colour'' = None"
    "''colour'' \<notin> set (framework_names with_Example 2)"
    by (simp_all add: with_Example_fields Example_members cls_init framework_names_def)
  from r [of "''com.example''" "''alarm_delay''"] u
  have c1: "set_prop program with_Example (PStr ''com.example'') (PStr ''alarm_delay'') (PInt 5) =
       Some (Inl KeyError, with_Example)"
    by blast
  from r [of "''ee.arti.TimeService''" "''alarm_delay''"] t p
  have c2: "set_prop program with_Example (PStr ''ee.arti.TimeService'') (PStr ''alarm_delay'') (PInt 5) =
       Some (case call program (Def 210 ''alarm_delay'') 1 [PInt 5] with_Example of
               (Inl e, s') \<Rightarrow> (Inl e, s')
             | (Inr r, s') \<Rightarrow> (Inr PNone, s'))"
    by blast
  have c3: "fst (call program (Def 210 ''alarm_delay'') 1 [PInt 5] with_Example) = Inr PNone"
    by (simp add: program_def)
  from r [of "''org.example''" "''version''"] e q
  have c4: "set_prop program with_Example (PStr ''org.example'') (PStr ''version'') (PInt 5) =
       Some (Inl AttributeError, with_Example)"
    by blast
  from r [of "''org.example''" "''colour''"] e c
  have c5: "set_prop program with_Example (PStr ''org.example'') (PStr ''colour'') (PInt 5) =
       Some (Inr PNone,
        with_Example\<lparr>heap := (heap with_Example)(2 := (heap with_Example 2)\<lparr>attrs :=
           (attrs (heap with_Example 2))(''colour'' \<mapsto> PInt 5)\<rparr>)\<rparr>)"
    by blast
  from c1 c2 c3 c4 c5 show ?thesis by (intro conjI)
qed

text \<open>
  C4 as stated fails in two ways. \<^verbatim>\<open>ee.arti.TimeService\<close> has no property \<^verbatim>\<open>colour\<close> (and no
  member or attribute of that name), yet \<^verbatim>\<open>Property.Set("ee.arti.TimeService", "colour", 5)\<close>
  returns \<^verbatim>\<open>None\<close> without an exception, and the object has the attribute \<^verbatim>\<open>colour\<close>
  afterwards. And \<^verbatim>\<open>org.example\<close> has a property declared as \<^verbatim>\<open>Level\<close>, with a setter, yet
  \<^verbatim>\<open>Property.Set("org.example", "Level", 5)\<close> does not call the setter: it stores an
  attribute \<^verbatim>\<open>Level\<close>.
\<close>

theorem set_prop_unknown_property:
  "map p_name (properties (heap main 1)) = [''alarm_delay''] \<and>
   map_of (cls (heap main 1)) ''colour'' = None \<and>
   attrs (heap main 1) ''colour'' = None \<and>
   set_prop program main (PStr ''ee.arti.TimeService'') (PStr ''colour'') (PInt 5) =
     Some (Inr PNone,
       main\<lparr>heap := (heap main)(1 := (heap main 1)\<lparr>attrs :=
          (attrs (heap main 1))(''colour'' \<mapsto> PInt 5)\<rparr>)\<rparr>) \<and>
   properties (heap with_Example 2) =
     [Property (Def 12 ''level'') (Some (Def 15 ''level'')) ''Level'',
      Property (Def 9 ''version'') None ''version''] \<and>
   set_prop program with_Example (PStr ''org.example'') (PStr ''Level'') (PInt 5) =
     Some (Inr PNone,
       with_Example\<lparr>heap := (heap with_Example)(2 := (heap with_Example 2)\<lparr>attrs :=
          (attrs (heap with_Example 2))(''Level'' \<mapsto> PInt 5)\<rparr>)\<rparr>)"
  by (simp add: set_prop_def main_interfaces main_rpc main_heap_1 main_heap_Suc main_attrs_1
      main_attrs_Suc TimeService_members with_Example_fields Example_properties Example_members
      cls_init framework_names_def)

section \<open>Set, then get\<close>

text \<open>
  C7. In every state that has the registry and the classes of the program (whatever the
  buses and the attributes of the objects are), for every registered interface and every
  property of it that has a setter: \<^verbatim>\<open>Property.Set\<close> with a value \<open>v\<close> returns \<^verbatim>\<open>None\<close>, and
  \<^verbatim>\<open>Property.Get\<close> right after it returns \<open>v\<close>.
\<close>

theorem get_after_set:
  assumes "interfaces s = interfaces main"
    and "\<forall>obj. cls (heap s obj) = cls (heap main obj)"
    and "(i, obj) \<in> set (interfaces main)"
    and "p \<in> set (properties (heap main obj))"
    and "fset p \<noteq> None"
  shows "\<exists>s'. set_prop program s (PStr i) (PStr (p_name p)) v = Some (Inr PNone, s') \<and>
              fst (get_prop program s' (PStr i) (PStr (p_name p))) = Inr v"
proof -
  from assms(3,4) have io: "i = ''ee.arti.TimeService''" "obj = 1"
    and p: "p = Property (Def 206 ''alarm_delay'') (Some (Def 210 ''alarm_delay'')) ''alarm_delay''"
    by (auto simp: main_interfaces main_heap_0 main_heap_1 main_heap_Suc)
  have c: "cls (heap s (Suc 0)) = TimeService_class"
    using assms(2) by (simp add: main_heap_Suc)
  show ?thesis
    by (simp add: io p set_prop_def get_prop_def assms(1) main_interfaces c TimeService_members
        program_def)
qed

text \<open>
  The theorem at the start of the program: \<^verbatim>\<open>alarm_delay\<close> of \<^verbatim>\<open>ee.arti.TimeService\<close> set to
  \<open>5\<close>, then read.
\<close>

theorem get_after_set_witness:
  "interfaces main = interfaces main \<and>
   (''ee.arti.TimeService'', 1) \<in> set (interfaces main) \<and>
   Property (Def 206 ''alarm_delay'') (Some (Def 210 ''alarm_delay'')) ''alarm_delay''
     \<in> set (properties (heap main 1)) \<and>
   (\<exists>s'. set_prop program main (PStr ''ee.arti.TimeService'') (PStr ''alarm_delay'') (PInt 5) =
            Some (Inr PNone, s') \<and>
          fst (get_prop program s' (PStr ''ee.arti.TimeService'') (PStr ''alarm_delay'')) =
            Inr (PInt 5))"
proof -
  let ?p = "Property (Def 206 ''alarm_delay'') (Some (Def 210 ''alarm_delay'')) ''alarm_delay''"
  have h1: "interfaces main = interfaces main"
    by simp
  have h2: "\<forall>obj. cls (heap main obj) = cls (heap main obj)"
    by simp
  have h3: "(''ee.arti.TimeService'', 1) \<in> set (interfaces main)"
    by (simp add: main_interfaces)
  have h4: "?p \<in> set (properties (heap main 1))"
    by (simp add: main_heap_1 main_heap_Suc)
  have h5: "fset ?p \<noteq> None"
    by simp
  from get_after_set [OF h1 h2 h3 h4 h5, of "PInt 5"]
  have "\<exists>s'. set_prop program main (PStr ''ee.arti.TimeService'') (PStr ''alarm_delay'') (PInt 5) =
            Some (Inr PNone, s') \<and>
          fst (get_prop program s' (PStr ''ee.arti.TimeService'') (PStr ''alarm_delay'')) =
            Inr (PInt 5)"
    by (simp only: Property.sel)
  with h1 h3 h4 show ?thesis by (intro conjI)
qed

section \<open>Broadcast\<close>

lemma bus_task_done:
  assumes "owner t = self" and "target t \<in> set (bus (heap s self))"
  shows "\<exists>s'. task_done fails (s, received, log) t =
            (s', received @ (if fails t then [] else [(target t, payload t)]), log)
          \<and> bus (heap s' self) =
              (if fails t then removeAll (target t) (bus (heap s self)) else bus (heap s self))"
  using assms
  by (simp add: task_done_def resolve_task_def set_remove_def Let_def)

lemma run_tasks:
  assumes "\<forall>t \<in> set ts. owner t = self"
    and "distinct (map target ts)"
    and "target ` set ts \<subseteq> set (bus (heap s self))"
  shows "\<exists>s'. foldl (task_done fails) (s, received, log) ts =
            (s', received @ map (\<lambda>t. (target t, payload t)) (filter (\<lambda>t. \<not> fails t) ts), log)
          \<and> bus (heap s' self) =
              filter (\<lambda>b. b \<notin> target ` {t \<in> set ts. fails t}) (bus (heap s self))"
  using assms
proof (induction ts arbitrary: s received)
  case Nil
  then show ?case by simp
next
  case (Cons t ts)
  from Cons.prems have t: "owner t = self" "target t \<in> set (bus (heap s self))"
    by auto
  from bus_task_done [OF t, of fails received log] obtain s1 where
    s1: "task_done fails (s, received, log) t =
           (s1, received @ (if fails t then [] else [(target t, payload t)]), log)"
    and b1: "bus (heap s1 self) =
           (if fails t then removeAll (target t) (bus (heap s self)) else bus (heap s self))"
    by blast
  have "target t \<notin> target ` set ts"
    using Cons.prems(2) by simp
  then have "\<forall>u \<in> set ts. target u \<noteq> target t"
    by (metis imageI)
  then have sub: "target ` set ts \<subseteq> set (bus (heap s1 self))"
    using Cons.prems(3) b1 by auto
  from Cons.prems have "\<forall>t \<in> set ts. owner t = self" "distinct (map target ts)"
    by auto
  from Cons.IH [OF this sub, of "received @ (if fails t then [] else [(target t, payload t)])"]
  obtain s' where
    s': "foldl (task_done fails) (s1, received @ (if fails t then [] else [(target t, payload t)]), log) ts =
           (s', (received @ (if fails t then [] else [(target t, payload t)])) @
                map (\<lambda>t. (target t, payload t)) (filter (\<lambda>t. \<not> fails t) ts), log)"
    and b': "bus (heap s' self) =
           filter (\<lambda>b. b \<notin> target ` {t \<in> set ts. fails t}) (bus (heap s1 self))"
    by blast
  have "foldl (task_done fails) (s, received, log) (t # ts) =
          (s', received @ map (\<lambda>t. (target t, payload t)) (filter (\<lambda>t. \<not> fails t) (t # ts)), log)"
    by (simp add: s1 s')
  moreover have "bus (heap s' self) =
      filter (\<lambda>b. b \<notin> target ` {u \<in> set (t # ts). fails u}) (bus (heap s self))"
    unfolding b' b1
    by (auto simp: removeAll_filter_not_eq intro!: filter_cong)
  ultimately show ?case by blast
qed

lemma call_signal:
  assumes "call body fn self args s = (Inr result, s0)"
  shows "call body (signal nm fn) self args s =
           (Inr result,
            s0\<lparr>loop := loop s0 @
              map (\<lambda>b. \<lparr>target = b, payload = signal_text, owner = self\<rparr>) (bus (heap s0 self))\<rparr>)"
  using assms by (simp add: signal_def ServiceInterface_handle_signal_def)

text \<open>
  C6. A signal is fired on an interface whose bus has no duplicates and holds the peer
  \<open>p\<close>; the handler returns \<open>result\<close>. The tasks of the broadcast are then done in any
  order, and only the send to \<open>p\<close> raises. Then the call that fired the signal has
  returned \<open>result\<close>, no callback has raised, \<open>p\<close> is no longer in the bus and every
  other peer still is, and each of the other peers, and no one else, has received the
  text once: one message less than the bus had peers.
\<close>

theorem broadcast_failure_isolated:
  assumes "call body fn self args s = (Inr result, s0)"
    and "loop s0 = []"
    and "distinct (bus (heap s0 self))"
    and "p \<in> set (bus (heap s0 self))"
    and "call body (signal nm fn) self args s = (r, s1)"
    and "mset order = mset (loop s1)"
    and "run_loop (\<lambda>t. target t = p) order s1 = (s2, received, log)"
  shows "r = Inr result \<and> log = [] \<and>
         set (bus (heap s2 self)) = set (bus (heap s0 self)) - {p} \<and>
         mset (map fst received) = mset (bus (heap s0 self)) - {#p#} \<and>
         length received = length (bus (heap s0 self)) - 1 \<and>
         snd ` set received \<subseteq> {signal_text}"
proof -
  let ?B = "bus (heap s0 self)"
  let ?mk = "\<lambda>b. \<lparr>target = b, payload = signal_text, owner = self\<rparr>"
  from call_signal [OF assms(1), of nm] assms(5)
  have r: "r = Inr result" and s1: "s1 = s0\<lparr>loop := loop s0 @ map ?mk ?B\<rparr>"
    by simp_all
  have l1: "loop s1 = map ?mk ?B" and h1: "heap s1 = heap s0"
    by (simp_all add: s1 assms(2))
  from assms(6) have m: "mset order = mset (map ?mk ?B)"
    by (simp add: l1)
  then have so: "set order = set (map ?mk ?B)"
    by (rule mset_eq_setD)
  have tm: "map target (map ?mk ?B) = ?B"
    by (simp add: comp_def)
  have "mset (map target order) = image_mset target (mset order)"
    by simp
  also have "\<dots> = image_mset target (mset (map ?mk ?B))"
    by (simp only: m)
  also have "\<dots> = mset (map target (map ?mk ?B))"
    by (simp add: multiset.map_comp)
  finally have mt: "mset (map target order) = mset ?B"
    by (simp only: tm)
  then have d: "distinct (map target order)"
    using assms(3) by (metis mset_eq_imp_distinct_iff)
  have ow: "\<forall>t \<in> set order. owner t = self"
    using so by auto
  have sub: "target ` set order \<subseteq> set (bus (heap s1 self))"
    using so by (auto simp: h1)
  from run_tasks [OF ow d sub, of "\<lambda>t. target t = p" "[]" "[]"] assms(7)
  have rec: "received = map (\<lambda>t. (target t, payload t)) (filter (\<lambda>t. target t \<noteq> p) order)"
    and log: "log = []"
    and b2: "bus (heap s2 self) =
               filter (\<lambda>b. b \<notin> target ` {t \<in> set order. target t = p}) ?B"
    by (auto simp: run_loop_def h1)
  have pt: "target ` {t \<in> set order. target t = p} = {p}"
    using assms(4) so by force
  have bus2: "set (bus (heap s2 self)) = set ?B - {p}"
    unfolding b2 pt by auto
  have "map fst received = filter (\<lambda>b. b \<noteq> p) (map target order)"
    by (simp add: rec filter_map comp_def)
  then have "mset (map fst received) = filter_mset (\<lambda>b. b \<noteq> p) (mset (map target order))"
    by simp
  also have "\<dots> = mset (filter (\<lambda>b. b \<noteq> p) ?B)"
    by (simp only: mt mset_filter)
  also have "filter (\<lambda>b. b \<noteq> p) ?B = remove1 p ?B"
    using assms(3) by (simp add: distinct_remove1_removeAll removeAll_filter_not_eq neq_commute)
  also have "mset (remove1 p ?B) = mset ?B - {#p#}"
    by simp
  finally have ms: "mset (map fst received) = mset ?B - {#p#}" .
  then have "size (mset (map fst received)) = size (mset ?B - {#p#})"
    by simp
  then have len: "length received = length ?B - 1"
    using assms(4) by (simp add: size_Diff_singleton)
  have texts: "snd ` set received \<subseteq> {signal_text}"
    using so by (auto simp: rec)
  from r log bus2 ms len texts show ?thesis by simp
qed


lemma three_peers_fields:
  "bus (heap three_peers 1) = [1, 2, 3]"
  "bus (heap three_peers 0) = [1, 2, 3]"
  "rpc_bus three_peers = [1, 2, 3]"
  "loop three_peers = []"
  by (simp_all add: three_peers_def RPC_add_bus_def main_interfaces main_rpc main_rpc_bus
      main_heap_0 main_heap_1 main_heap_Suc main_loop set_add_def ServiceInterface_add_bus_def)

text \<open>
  The theorem with the peers \<open>1\<close>, \<open>2\<close> and \<open>3\<close> connected: \<^verbatim>\<open>alarm_clock\<close> is fired, the
  tasks are done in the reverse order of their creation, and the send to peer \<open>2\<close> raises.
\<close>

theorem broadcast_failure_isolated_witness:
  "call program (Def 201 ''alarm_clock'') 1 [] three_peers = (Inr (PStr ''ALARM''), three_peers) \<and>
   loop three_peers = [] \<and>
   bus (heap three_peers 1) = [1, 2, 3] \<and>
   fst (call program (signal None (Def 201 ''alarm_clock'')) 1 [] three_peers) = Inr (PStr ''ALARM'') \<and>
   snd (snd (run_loop (\<lambda>t. target t = 2)
       (rev (loop (snd (call program (signal None (Def 201 ''alarm_clock'')) 1 [] three_peers))))
       (snd (call program (signal None (Def 201 ''alarm_clock'')) 1 [] three_peers)))) = [] \<and>
   set (bus (heap (fst (run_loop (\<lambda>t. target t = 2)
       (rev (loop (snd (call program (signal None (Def 201 ''alarm_clock'')) 1 [] three_peers))))
       (snd (call program (signal None (Def 201 ''alarm_clock'')) 1 [] three_peers)))) 1)) = {1, 3} \<and>
   mset (map fst (fst (snd (run_loop (\<lambda>t. target t = 2)
       (rev (loop (snd (call program (signal None (Def 201 ''alarm_clock'')) 1 [] three_peers))))
       (snd (call program (signal None (Def 201 ''alarm_clock'')) 1 [] three_peers)))))) = {#1, 3#}"
proof -
  let ?c = "call program (signal None (Def 201 ''alarm_clock'')) 1 [] three_peers"
  let ?r = "run_loop (\<lambda>t. target t = 2) (rev (loop (snd ?c))) (snd ?c)"
  have h1: "call program (Def 201 ''alarm_clock'') 1 [] three_peers =
              (Inr (PStr ''ALARM''), three_peers)"
    by (simp add: program_def)
  have h2: "loop three_peers = []"
    by (rule three_peers_fields)
  have b: "bus (heap three_peers 1) = [1, 2, 3]"
    by (rule three_peers_fields)
  have h3: "distinct (bus (heap three_peers 1))"
    by (simp only: b) simp
  have h4: "2 \<in> set (bus (heap three_peers 1))"
    by (simp only: b) simp
  have h5: "?c = (fst ?c, snd ?c)"
    by simp
  have h6: "mset (rev (loop (snd ?c))) = mset (loop (snd ?c))"
    by simp
  have h7: "?r = (fst ?r, fst (snd ?r), snd (snd ?r))"
    by simp
  from broadcast_failure_isolated [OF h1 h2 h3 h4 h5 h6 h7]
  have "fst ?c = Inr (PStr ''ALARM'') \<and> snd (snd ?r) = [] \<and>
        set (bus (heap (fst ?r) 1)) = set [1, 2, 3] - {2::nat} \<and>
        mset (map fst (fst (snd ?r))) = mset [1, 2, 3] - {#2::nat#}"
    by (simp only: b)
  moreover have "set [1, 2, 3] - {2::nat} = {1, 3}"
    by auto
  moreover have "mset [1, 2, 3] - {#2::nat#} = {#1, 3#}"
    by simp
  ultimately show ?thesis
    using h1 h2 b by simp
qed

end
